theory Spec2Isabelle
  imports Main "HOL-Library.Word" "HOL-Library.FSet" "HOL-Library.Finite_Map" "HOL-Library.AList"
begin

unbundle bit_operations_syntax

chapter \<open>Alicia server: frame codec, room admission, lobby login and race director\<close>

type_synonym u8 = "8 word"
type_synonym u16 = "16 word"
type_synonym u32 = "32 word"

text \<open>\<^verbatim>\<open>data::Uid\<close> (character, room and record identifiers); the invalid uid is 0.\<close>

type_synonym Uid = u32

definition InvalidUid :: Uid where
  "InvalidUid = 0"

text \<open>\<^verbatim>\<open>ClientId\<close>: the endpoint-local connection number.\<close>

type_synonym ClientId = nat

section \<open>Frame codec (message magic)\<close>

text \<open>
  \<^verbatim>\<open>encode_message_information\<close>: all intermediate values are \<^verbatim>\<open>uint32_t\<close>, the magic and
  the message id are \<^verbatim>\<open>uint16_t\<close>.  C++ precedence: shifts bind tighter than \<^verbatim>\<open>&\<close>, which
  binds tighter than \<^verbatim>\<open>|\<close>.
\<close>

definition encode_message_information :: "u16 \<Rightarrow> u16 \<Rightarrow> u16 \<Rightarrow> u16 \<Rightarrow> u32" where
  "encode_message_information message_id message_jumbo message_data_length buffer_size =
    (let length0 = push_bit 16 (ucast buffer_size :: u32) OR ucast message_data_length;
         val = length0;
         length1 = (length0 AND 16383) OR push_bit 14 length0;
         magic = (ucast (push_bit 8 ((length1 AND 15) OR 65408)
                         OR (drop_bit 4 val AND 255)
                         OR (length1 AND 61440)) :: u16);
         message_id1 = (message_jumbo AND 0xFFFF) OR (message_id AND 0xFFFF);
         encoded = (ucast magic :: u32)
     in encoded OR push_bit 16 (ucast (magic XOR message_id1) :: u32))"

text \<open>\<^verbatim>\<open>decode_message_length\<close>, the decoder with the 14-bit section mask (16383).\<close>

definition decode_message_length :: "u32 \<Rightarrow> u32" where
  "decode_message_length data =
    (if data AND push_bit 15 1 \<noteq> 0
     then (let section = (ucast (data AND 16383) :: u16)
           in push_bit 4 (data AND 255)
              OR (drop_bit 8 (ucast section) AND 15)
              OR (ucast section AND 61440))
     else data)"

text \<open>
  \<^verbatim>\<open>decode_message_information\<close>, the decoder that also recovers the message id.  Its
  section mask is \<^verbatim>\<open>0x3FF\<close>.  The two out-parameters are returned as a pair (id, length);
  \<^verbatim>\<open>None\<close> is the \<^verbatim>\<open>false\<close> return.  The two halves of \<^verbatim>\<open>data\<close> are read through a
  \<^verbatim>\<open>uint16_t\<close> pointer: on the little-endian hosts the server runs on, index 0 is the low half.
\<close>

definition decode_message_information :: "u32 \<Rightarrow> (u16 \<times> u16) option" where
  "decode_message_information data =
    (if data AND push_bit 15 1 \<noteq> 0
     then (let section = (ucast (data AND 0x3FF) :: u16);
               out_message_data_length =
                 (ucast (push_bit 4 (data AND 255)
                         OR (drop_bit 8 (ucast section) AND 15)
                         OR (ucast section AND 61440)) :: u16);
               firstTwoBytes = (ucast data :: u16);
               secondTwoBytes = (ucast (drop_bit 16 data) :: u16);
               xorResult = firstTwoBytes XOR secondTwoBytes;
               out_message_id = NOT (xorResult AND 0xC000) AND xorResult
           in Some (out_message_id, out_message_data_length))
     else None)"

section \<open>Room system\<close>

text \<open>
  \<^verbatim>\<open>Room::GameMode\<close> (Speed = 1, Magic = 2, Guild = 3, Tutorial = 6) and \<^verbatim>\<open>Room::TeamMode\<close>
  (Solo = 1, Team = 2), with the integer value each enumerator has in the source.
\<close>

datatype GameMode = Speed | Magic | Guild | Tutorial

datatype TeamMode = TeamMode_Solo | TeamMode_Team

fun GameMode_value :: "GameMode \<Rightarrow> u8" where
  "GameMode_value Speed = 1"
| "GameMode_value Magic = 2"
| "GameMode_value Guild = 3"
| "GameMode_value Tutorial = 6"

fun TeamMode_value :: "TeamMode \<Rightarrow> u8" where
  "TeamMode_value TeamMode_Solo = 1"
| "TeamMode_value TeamMode_Team = 2"

text \<open>\<^verbatim>\<open>Room::Player::Team\<close> and \<^verbatim>\<open>Room::Player\<close>.\<close>

datatype Team = Team_Solo | Team_Red | Team_Blue

record Player =
  isReady :: bool
  team :: Team

record Details =
  name :: string
  password :: string
  missionId :: u16
  courseId :: u16
  maxPlayerCount :: u32
  gameMode :: GameMode
  teamMode :: TeamMode
  member11 :: bool
  skillBracket :: u8

record Room =
  details :: Details
  uid :: u32
  queuedPlayers :: "Uid fset"
  players :: "(Uid, Player) fmap"
  roomIsPlaying :: bool

text \<open>
  The sizes are \<^verbatim>\<open>size_t\<close> values compared with the \<^verbatim>\<open>uint32_t\<close> capacity; the sum of two
  container sizes does not wrap, so the comparison is on natural numbers.
\<close>

definition IsRoomFull :: "Room \<Rightarrow> bool" where
  "IsRoomFull room \<longleftrightarrow>
     fcard (fmdom (players room)) + fcard (queuedPlayers room)
       \<ge> unat (maxPlayerCount (details room))"

definition QueuePlayer :: "Uid \<Rightarrow> Room \<Rightarrow> bool \<times> Room" where
  "QueuePlayer character_uid room =
    (if IsRoomFull room then (False, room)
     else (True, room\<lparr>queuedPlayers := finsert character_uid (queuedPlayers room)\<rparr>))"

definition DequeuePlayer :: "Uid \<Rightarrow> Room \<Rightarrow> bool \<times> Room" where
  "DequeuePlayer character_uid room =
    (character_uid |\<in>| queuedPlayers room,
     room\<lparr>queuedPlayers := queuedPlayers room |-| {|character_uid|}\<rparr>)"

text \<open>
  \<^verbatim>\<open>AddPlayer\<close>: the capacity test looks at the committed players only.  In team mode the
  new player joins the smaller team; on a tie \<^verbatim>\<open>std::rand() % 2\<close> decides, and the value
  returned by \<^verbatim>\<open>std::rand()\<close> is the parameter \<open>rand_value\<close>.  \<^verbatim>\<open>try_emplace\<close> keeps an
  existing entry.
\<close>

definition teamCount :: "Team \<Rightarrow> (Uid, Player) fmap \<Rightarrow> nat" where
  "teamCount t ps =
     fcard (ffilter (\<lambda>k. map_option team (fmlookup ps k) = Some t) (fmdom ps))"

definition AddPlayer :: "nat \<Rightarrow> Uid \<Rightarrow> Room \<Rightarrow> bool \<times> Room" where
  "AddPlayer rand_value character_uid room =
    (if fcard (fmdom (players room)) \<ge> unat (maxPlayerCount (details room)) then (False, room)
     else
       (let player0 = \<lparr>isReady = False, team = Team_Solo\<rparr>;
            player =
              (if teamMode (details room) = TeamMode_Team
               then (let redTeamCount = teamCount Team_Red (players room);
                         blueTeamCount = teamCount Team_Blue (players room)
                     in if redTeamCount > blueTeamCount then player0\<lparr>team := Team_Blue\<rparr>
                        else if blueTeamCount > redTeamCount then player0\<lparr>team := Team_Red\<rparr>
                        else player0\<lparr>team := (if rand_value mod 2 = 0 then Team_Red else Team_Blue)\<rparr>)
               else player0)
        in (True,
            room\<lparr>queuedPlayers := queuedPlayers room |-| {|character_uid|},
                 players := (if character_uid |\<in>| fmdom (players room) then players room
                             else fmupd character_uid player (players room))\<rparr>)))"

definition RemovePlayer :: "Uid \<Rightarrow> Room \<Rightarrow> Room" where
  "RemovePlayer character_uid room = room\<lparr>players := fmdrop character_uid (players room)\<rparr>"

text \<open>Sequences of calls of the four admission operations on one room.\<close>

datatype RoomCall =
    Call_QueuePlayer Uid
  | Call_DequeuePlayer Uid
  | Call_AddPlayer nat Uid
  | Call_RemovePlayer Uid

fun room_call :: "RoomCall \<Rightarrow> Room \<Rightarrow> Room" where
  "room_call (Call_QueuePlayer c) room = snd (QueuePlayer c room)"
| "room_call (Call_DequeuePlayer c) room = snd (DequeuePlayer c room)"
| "room_call (Call_AddPlayer rv c) room = snd (AddPlayer rv c room)"
| "room_call (Call_RemovePlayer c) room = RemovePlayer c room"

fun room_calls :: "RoomCall list \<Rightarrow> Room \<Rightarrow> Room" where
  "room_calls [] room = room"
| "room_calls (c # cs) room = room_calls cs (room_call c room)"

definition room_capacity_ok :: "Room \<Rightarrow> bool" where
  "room_capacity_ok room \<longleftrightarrow>
     fcard (fmdom (players room)) + fcard (queuedPlayers room)
       \<le> unat (maxPlayerCount (details room))"

definition room_disjoint :: "Room \<Rightarrow> bool" where
  "room_disjoint room \<longleftrightarrow> fmdom (players room) |\<inter>| queuedPlayers room = {||}"

text \<open>
  The admission path: \<^verbatim>\<open>QueuePlayer\<close> for a character that is not yet a player of the room,
  \<^verbatim>\<open>AddPlayer\<close> for a character that is queued.
\<close>

fun admission_call :: "RoomCall \<Rightarrow> Room \<Rightarrow> bool" where
  "admission_call (Call_QueuePlayer c) room \<longleftrightarrow> c |\<notin>| fmdom (players room)"
| "admission_call (Call_AddPlayer rv c) room \<longleftrightarrow> c |\<in>| queuedPlayers room"
| "admission_call _ room \<longleftrightarrow> True"

fun admission_calls :: "RoomCall list \<Rightarrow> Room \<Rightarrow> bool" where
  "admission_calls [] room \<longleftrightarrow> True"
| "admission_calls (c # cs) room \<longleftrightarrow>
     admission_call c room \<and> admission_calls cs (room_call c room)"

text \<open>
  A room as \<^verbatim>\<open>RoomSystem::CreateRoom\<close> hands it over once its consumer has set the details:
  constructed from the uid, no queued and no committed players, not playing.
\<close>

definition new_room :: "u32 \<Rightarrow> Details \<Rightarrow> Room" where
  "new_room u d = \<lparr>details = d, uid = u, queuedPlayers = {||}, players = fmempty,
     roomIsPlaying = False\<rparr>"

text \<open>Details of a solo speed room with the given capacity, for concrete runs.\<close>

definition example_details :: "u32 \<Rightarrow> Details" where
  "example_details n = \<lparr>name = ''r'', password = '''', missionId = 0, courseId = 0,
     maxPlayerCount = n, gameMode = Speed, teamMode = TeamMode_Solo, member11 = False,
     skillBracket = 0\<rparr>"



section \<open>Race tracker\<close>

type_synonym Oid = u16

text \<open>Time points of the steady clock, in milliseconds.\<close>

type_synonym time_point = nat

datatype RacerState = Racer_Disconnected | Racer_Loading | Racer_Racing | Racer_Finishing

datatype RacerTeam = RacerTeam_Solo | RacerTeam_Red | RacerTeam_Blue

record Racer =
  oid :: Oid
  state :: RacerState
  racer_team :: RacerTeam
  starPointValue :: u32
  jumpComboValue :: u32
  courseTime :: u32
  magicItem :: "u32 option"
  trackedItems :: "Oid fset"
  isTargeting :: bool
  currentTarget :: Oid

text \<open>An item of the race; its position (three floats) is not modelled.\<close>

record Item =
  item_oid :: Oid
  deckId :: u32
  respawnTimePoint :: time_point

text \<open>
  The two \<^verbatim>\<open>std::map\<close>s of the tracker are association lists in ascending key order, the
  order in which the source iterates them.
\<close>

record RaceTracker =
  nextRacerOid :: Oid
  racers :: "(Uid \<times> Racer) list"
  nextItemOid :: u16
  items :: "(u16 \<times> Item) list"

definition default_Racer :: Racer where
  "default_Racer = \<lparr>oid = 0, state = Racer_Disconnected, racer_team = RacerTeam_Solo,
     starPointValue = 0, jumpComboValue = 0, courseTime = 0xFFFFFFFF, magicItem = None,
     trackedItems = {||}, isTargeting = False, currentTarget = 0\<rparr>"

definition default_RaceTracker :: RaceTracker where
  "default_RaceTracker = \<lparr>nextRacerOid = 1, racers = [], nextItemOid = 1, items = []\<rparr>"

text \<open>\<^verbatim>\<open>std::map::try_emplace\<close>: insert at the key's place unless the key is present.\<close>

fun try_emplace :: "'k::linorder \<Rightarrow> 'v \<Rightarrow> ('k \<times> 'v) list \<Rightarrow> ('k \<times> 'v) list" where
  "try_emplace k v [] = [(k, v)]"
| "try_emplace k v ((k', v') # kvs) =
     (if k = k' then (k', v') # kvs
      else if k < k' then (k, v) # (k', v') # kvs
      else (k', v') # try_emplace k v kvs)"

text \<open>Assignment through a reference to the mapped value of an existing key.\<close>

definition modify :: "'k \<Rightarrow> ('v \<Rightarrow> 'v) \<Rightarrow> ('k \<times> 'v) list \<Rightarrow> ('k \<times> 'v) list" where
  "modify k f kvs = map (\<lambda>(k', v). if k' = k then (k', f v) else (k', v)) kvs"

text \<open>
  Modelled from the spec: the member functions of \<^verbatim>\<open>RaceTracker\<close>, of which the source has
  the declarations only.  Racer OIDs are unique in the race and assigned monotonically from
  1; \<^verbatim>\<open>GetRacer\<close> returns the record of a racer and raises for a character that is none;
  \<^verbatim>\<open>Clear\<close> empties the tracker for the next race.
\<close>

definition AddRacer :: "Uid \<Rightarrow> RaceTracker \<Rightarrow> RaceTracker" where
  "AddRacer character_uid t =
     t\<lparr>racers := modify character_uid (\<lambda>r. r\<lparr>oid := nextRacerOid t\<rparr>)
                    (try_emplace character_uid default_Racer (racers t)),
       nextRacerOid := nextRacerOid t + 1\<rparr>"

definition GetRacer :: "Uid \<Rightarrow> RaceTracker \<Rightarrow> Racer option" where
  "GetRacer character_uid t = map_of (racers t) character_uid"

definition IsRacer :: "Uid \<Rightarrow> RaceTracker \<Rightarrow> bool" where
  "IsRacer character_uid t \<longleftrightarrow> map_of (racers t) character_uid \<noteq> None"

definition AddItem :: "u32 \<Rightarrow> RaceTracker \<Rightarrow> RaceTracker" where
  "AddItem deck t =
     t\<lparr>items := try_emplace (nextItemOid t)
                   \<lparr>item_oid = nextItemOid t, deckId = deck, respawnTimePoint = 0\<rparr> (items t),
       nextItemOid := nextItemOid t + 1\<rparr>"

definition Clear :: "RaceTracker \<Rightarrow> RaceTracker" where
  "Clear t = default_RaceTracker"

section \<open>Race director: state\<close>

datatype Stage = Waiting | Loading | Racing | Finishing

text \<open>
  \<^verbatim>\<open>RoomInstance\<close>.  The race game mode and team mode are of the protocol's enumeration
  types, which the source reaches only through \<^verbatim>\<open>static_cast\<close> from the room's enumerations
  and back to \<^verbatim>\<open>uint8_t\<close>: they are kept as that integer value.  \<^verbatim>\<open>clients\<close> is an unordered
  set; the list gives the order in which a broadcast loop visits it.
\<close>

record RoomInstance =
  stage :: Stage
  stageTimeoutTimePoint :: time_point
  masterUid :: Uid
  tracker :: RaceTracker
  raceGameMode :: u8
  raceTeamMode :: u8
  raceMapBlockId :: u16
  raceMissionId :: u16
  raceStartTimePoint :: time_point
  clients :: "ClientId list"

definition default_RoomInstance :: RoomInstance where
  "default_RoomInstance = \<lparr>stage = Waiting, stageTimeoutTimePoint = 0, masterUid = InvalidUid,
     tracker = default_RaceTracker, raceGameMode = 0, raceTeamMode = 0, raceMapBlockId = 0,
     raceMissionId = 0, raceStartTimePoint = 0, clients = []\<rparr>"

text \<open>The values of \<^verbatim>\<open>protocol::GameMode::Speed\<close> and \<^verbatim>\<open>protocol::GameMode::Magic\<close>.\<close>

definition protocol_GameMode_Speed :: u8 where
  "protocol_GameMode_Speed = 1"

definition protocol_GameMode_Magic :: u8 where
  "protocol_GameMode_Magic = 2"

record ClientContext =
  characterUid :: Uid
  roomUid :: Uid
  isAuthenticated :: bool

text \<open>Exceptions raised by the handlers and by the collaborators they call.\<close>

datatype error =
    Race_client_is_not_available
  | Race_client_is_not_authenticated
  | Racer_does_not_exist
  | Room_does_not_exist
  | Not_the_master
  | On_behalf_of_different_racer
  | Cheating_or_desynced
  | Registry_entry_missing
  | Record_unavailable
  | Empty_distribution_range
  | Lobby_client_is_not_available
  | Lobby_client_is_not_authenticated

datatype HurdleClearType = Perfect | Good | DoubleJumpOrGlide | Collision | Unhandled u8

record Score =
  score_uid :: Uid
  score_name :: string
  score_level :: u32
  score_mountName :: string
  score_courseTime :: u32
  score_connected :: bool

text \<open>The clientbound commands the modelled handlers queue, with the fields they set.\<close>

datatype Command =
    AcCmdCRStarPointGetOK Oid u32 bool
  | AcCmdCRRequestSpurOK Oid u32 u32 u32
  | AcCmdCRHurdleClearResultOK Oid HurdleClearType u32
  | AcCmdCRRequestMagicItemOK Oid u32 u32
  | AcCmdCRRequestMagicItemNotify u32 Oid
  | AcCmdRCRoomCountdown u32 u16
  | AcCmdUserRaceCountdown nat
  | AcCmdUserRaceFinalNotify
  | AcCmdRCRaceResultNotify "Score list"

text \<open>
  The closure \<^verbatim>\<open>HandleStartRace\<close> hands to the scheduler: it sends the start-race
  notification to the racers' clients when it is due.
\<close>

datatype Task = StartRaceNotify ClientId

text \<open>
  The race director together with the room system of the server instance.
  \<^verbatim>\<open>clientContexts\<close> is \<^verbatim>\<open>_clients\<close>, \<^verbatim>\<open>raceInstances\<close> is \<^verbatim>\<open>_raceInstances\<close> in the order its
  loops visit it, \<^verbatim>\<open>commandQueue\<close> holds what \<^verbatim>\<open>QueueCommand\<close> was given, oldest first, and
  \<^verbatim>\<open>scheduled\<close> what was given to the scheduler.
\<close>

record RaceDirector =
  clientContexts :: "ClientId \<rightharpoonup> ClientContext"
  raceInstances :: "(u32 \<times> RoomInstance) list"
  roomSystem :: "u32 \<rightharpoonup> Room"
  commandQueue :: "(ClientId \<times> Command) list"
  scheduled :: "(time_point \<times> Task) list"

text \<open>
  The course registry and the data director are collaborators whose code is not part of
  the source: they are parameters.  \<^verbatim>\<open>None\<close> is a lookup that raises.
\<close>

record GameModeInfo =
  starPointsMax :: u32
  spurConsumeStarPoints :: u32
  perfectJumpStarPoints :: u32
  perfectJumpUnitStarPoints :: u32
  perfectJumpMaxBonusCombo :: u32
  goodJumpStarPoints :: u32
  mapPool :: "u32 list"
  usedDeckItemIds :: "u32 list"

record MapBlockInfo =
  requiredLevel :: u32
  timeLimit :: u32
  waitTime :: u32
  deckItems :: "u32 list"

record CourseRegistry =
  GetCourseGameModeInfo :: "u8 \<Rightarrow> GameModeInfo option"
  GetMapBlockInfo :: "u32 \<Rightarrow> MapBlockInfo option"

record Character =
  character_name :: string
  character_level :: u32
  character_mountUid :: Uid

record DataDirector =
  GetCharacter :: "Uid \<Rightarrow> Character option"
  GetHorseName :: "Uid \<Rightarrow> string option"

section \<open>Race director: helpers\<close>

definition GetClientContext :: "ClientId \<Rightarrow> bool \<Rightarrow> RaceDirector \<Rightarrow> error + ClientContext" where
  "GetClientContext clientId requireAuthorized d =
    (case clientContexts d clientId of
       None \<Rightarrow> Inl Race_client_is_not_available
     | Some clientContext \<Rightarrow>
         if requireAuthorized \<and> \<not> isAuthenticated clientContext
         then Inl Race_client_is_not_authenticated
         else Inr clientContext)"

text \<open>
  \<^verbatim>\<open>_raceInstances[roomUid]\<close>: \<^verbatim>\<open>operator[]\<close> inserts a default instance for a key that is
  absent.
\<close>

definition instance_at :: "u32 \<Rightarrow> RaceDirector \<Rightarrow> RoomInstance \<times> RaceDirector" where
  "instance_at room_uid d =
    (case map_of (raceInstances d) room_uid of
       Some raceInstance \<Rightarrow> (raceInstance, d)
     | None \<Rightarrow> (default_RoomInstance,
         d\<lparr>raceInstances := raceInstances d @ [(room_uid, default_RoomInstance)]\<rparr>))"

text \<open>Writing through the reference \<^verbatim>\<open>raceInstance\<close> obtained from \<^verbatim>\<open>instance_at\<close>.\<close>

definition set_instance :: "u32 \<Rightarrow> RoomInstance \<Rightarrow> RaceDirector \<Rightarrow> RaceDirector" where
  "set_instance room_uid raceInstance d =
     d\<lparr>raceInstances := modify room_uid (\<lambda>_. raceInstance) (raceInstances d)\<rparr>"

definition set_racer :: "Uid \<Rightarrow> Racer \<Rightarrow> RoomInstance \<Rightarrow> RoomInstance" where
  "set_racer character_uid racer raceInstance =
     raceInstance\<lparr>tracker := (tracker raceInstance)
       \<lparr>racers := modify character_uid (\<lambda>_. racer) (racers (tracker raceInstance))\<rparr>\<rparr>"

definition QueueCommand :: "ClientId \<Rightarrow> Command \<Rightarrow> RaceDirector \<Rightarrow> RaceDirector" where
  "QueueCommand clientId command d = d\<lparr>commandQueue := commandQueue d @ [(clientId, command)]\<rparr>"

definition broadcast :: "ClientId list \<Rightarrow> Command \<Rightarrow> RaceDirector \<Rightarrow> RaceDirector" where
  "broadcast clientIds command d = foldl (\<lambda>d' c. QueueCommand c command d') d clientIds"

text \<open>A loop whose body may raise: the exception leaves the loop with the state reached.\<close>

fun for_each :: "('k \<Rightarrow> 's \<Rightarrow> error option \<times> 's) \<Rightarrow> 'k list \<Rightarrow> 's \<Rightarrow> error option \<times> 's" where
  "for_each body [] s = (None, s)"
| "for_each body (k # ks) s =
     (case body k s of
        (Some e, s') \<Rightarrow> (Some e, s')
      | (None, s') \<Rightarrow> for_each body ks s')"

text \<open>
  The first three statements of the racer handlers: the client context (authorised), the
  race instance of its room, the racer of its character.
\<close>

definition racer_of_client ::
  "ClientId \<Rightarrow> RaceDirector \<Rightarrow> (error \<times> RaceDirector) + (ClientContext \<times> RoomInstance \<times> Racer \<times> RaceDirector)"
where
  "racer_of_client clientId d =
    (case GetClientContext clientId True d of
       Inl e \<Rightarrow> Inl (e, d)
     | Inr clientContext \<Rightarrow>
         (case instance_at (roomUid clientContext) d of
            (raceInstance, d1) \<Rightarrow>
              (case GetRacer (characterUid clientContext) (tracker raceInstance) of
                 None \<Rightarrow> Inl (Racer_does_not_exist, d1)
               | Some racer \<Rightarrow> Inr (clientContext, raceInstance, racer, d1))))"

section \<open>Race director: gauge handlers\<close>



record AcCmdCRHurdleClearResult =
  hcr_characterOid :: Oid
  hurdleClearType :: HurdleClearType




text \<open>
  \<^verbatim>\<open>HandleHurdleClearResult\<close>.  The jump combo goes into the reply only in a speed race
  (for a perfect jump); the star point reply is not sent after a collision; an unhandled
  clear type returns before anything is changed or sent.
\<close>

definition HandleHurdleClearResult ::
  "CourseRegistry \<Rightarrow> ClientId \<Rightarrow> AcCmdCRHurdleClearResult \<Rightarrow> RaceDirector \<Rightarrow> error option \<times> RaceDirector"
where
  "HandleHurdleClearResult registry clientId command d =
    (case racer_of_client clientId d of
       Inl (e, d1) \<Rightarrow> (Some e, d1)
     | Inr (clientContext, raceInstance, racer, d1) \<Rightarrow>
         if hcr_characterOid command \<noteq> oid racer then (Some On_behalf_of_different_racer, d1)
         else
           (case GetCourseGameModeInfo registry (raceGameMode raceInstance) of
              None \<Rightarrow> (Some Registry_entry_missing, d1)
            | Some gameModeTemplate \<Rightarrow>
                (case hurdleClearType command of
                   Unhandled v \<Rightarrow> (None, d1)
                 | clearType \<Rightarrow>
                   (let racer1 =
                          (case clearType of
                             Perfect \<Rightarrow>
                               (let combo = min 99 (jumpComboValue racer + 1);
                                    applicableComboCount =
                                      min (perfectJumpMaxBonusCombo gameModeTemplate) combo;
                                    gainedStarPointsFromCombo =
                                      applicableComboCount * perfectJumpUnitStarPoints gameModeTemplate
                                in racer\<lparr>jumpComboValue := combo,
                                     starPointValue :=
                                       min (starPointValue racer
                                              + perfectJumpStarPoints gameModeTemplate
                                              + gainedStarPointsFromCombo)
                                           (starPointsMax gameModeTemplate)\<rparr>)
                           | Collision \<Rightarrow> racer\<lparr>jumpComboValue := 0\<rparr>
                           | _ \<Rightarrow>
                               racer\<lparr>jumpComboValue := 0,
                                 starPointValue :=
                                   min (starPointValue racer + goodJumpStarPoints gameModeTemplate)
                                       (starPointsMax gameModeTemplate)\<rparr>);
                        jumpCombo =
                          (if clearType = Perfect
                           then (if raceGameMode raceInstance = protocol_GameMode_Speed
                                 then jumpComboValue racer1 else 0)
                           else jumpComboValue racer1);
                        response = AcCmdCRHurdleClearResultOK (hcr_characterOid command)
                                     clearType jumpCombo;
                        giveMagicItem =
                          (raceGameMode raceInstance = protocol_GameMode_Magic
                           \<and> starPointValue racer1 \<ge> starPointsMax gameModeTemplate
                           \<and> clearType = Perfect);
                        starPointResponse = AcCmdCRStarPointGetOK (hcr_characterOid command)
                                     (starPointValue racer1) giveMagicItem;
                        d2 = set_instance (roomUid clientContext)
                               (set_racer (characterUid clientContext) racer1 raceInstance) d1;
                        d3 = (if clearType \<noteq> Collision
                              then QueueCommand clientId starPointResponse d2 else d2)
                    in (None, QueueCommand clientId response d3)))))"




text \<open>The racer record of a character in the race instance of a room, if there is one.\<close>

definition racer_in :: "u32 \<Rightarrow> Uid \<Rightarrow> RaceDirector \<Rightarrow> Racer option" where
  "racer_in room character d =
    (case map_of (raceInstances d) room of
       None \<Rightarrow> None
     | Some raceInstance \<Rightarrow> GetRacer character (tracker raceInstance))"

section \<open>A concrete race, for running the handlers\<close>

text \<open>
  The speed template has the values of the perfect-jump scenario of the specification;
  the remaining values are chosen freely.
\<close>

definition example_speed_template :: GameModeInfo where
  "example_speed_template = \<lparr>starPointsMax = 40000, spurConsumeStarPoints = 40000,
     perfectJumpStarPoints = 1000, perfectJumpUnitStarPoints = 200,
     perfectJumpMaxBonusCombo = 5, goodJumpStarPoints = 500,
     mapPool = [3, 5, 8], usedDeckItemIds = [101, 102]\<rparr>"

definition example_magic_template :: GameModeInfo where
  "example_magic_template = \<lparr>starPointsMax = 4000, spurConsumeStarPoints = 4000,
     perfectJumpStarPoints = 500, perfectJumpUnitStarPoints = 100,
     perfectJumpMaxBonusCombo = 5, goodJumpStarPoints = 200,
     mapPool = [], usedDeckItemIds = []\<rparr>"

definition example_registry :: CourseRegistry where
  "example_registry = \<lparr>
     GetCourseGameModeInfo = (\<lambda>m. if m = 1 then Some example_speed_template
                                  else if m = 2 then Some example_magic_template else None),
     GetMapBlockInfo = (\<lambda>b. if b = 3 then Some \<lparr>requiredLevel = 1, timeLimit = 180, waitTime = 10, deckItems = [101]\<rparr>
                            else if b = 5 then Some \<lparr>requiredLevel = 30, timeLimit = 240, waitTime = 10, deckItems = []\<rparr>
                            else if b = 8 then Some \<lparr>requiredLevel = 2, timeLimit = 200, waitTime = 10, deckItems = [102, 7]\<rparr>
                            else None)\<rparr>"

definition example_racer :: "Oid \<Rightarrow> Racer" where
  "example_racer n = default_Racer\<lparr>oid := n, state := Racer_Racing\<rparr>"

text \<open>
  Room 1: a team room in speed mode with the committed players 42 (the master) and 43,
  connected as clients 1 and 2, in the middle of a speed race.
\<close>

definition example_room :: Room where
  "example_room = \<lparr>details = \<lparr>name = ''r'', password = '''', missionId = 9, courseId = 10000,
       maxPlayerCount = 4, gameMode = Speed, teamMode = TeamMode_Team, member11 = False,
       skillBracket = 0\<rparr>,
     uid = 1, queuedPlayers = {||},
     players = fmupd 42 \<lparr>isReady = True, team = Team_Red\<rparr>
                 (fmupd 43 \<lparr>isReady = True, team = Team_Blue\<rparr> fmempty),
     roomIsPlaying = True\<rparr>"

definition example_instance :: RoomInstance where
  "example_instance = \<lparr>stage = Racing, stageTimeoutTimePoint = 500000, masterUid = 42,
     tracker = \<lparr>nextRacerOid = 3, racers = [(42, example_racer 1), (43, example_racer 2)],
                 nextItemOid = 1, items = []\<rparr>,
     raceGameMode = 1, raceTeamMode = 1, raceMapBlockId = 3, raceMissionId = 9,
     raceStartTimePoint = 100000, clients = [1, 2]\<rparr>"

definition example_director :: RaceDirector where
  "example_director = \<lparr>
     clientContexts = [1 \<mapsto> \<lparr>characterUid = 42, roomUid = 1, isAuthenticated = True\<rparr>,
                       2 \<mapsto> \<lparr>characterUid = 43, roomUid = 1, isAuthenticated = True\<rparr>],
     raceInstances = [(1, example_instance)],
     roomSystem = [1 \<mapsto> example_room],
     commandQueue = [],
     scheduled = []\<rparr>"



section \<open>Race director: the tick\<close>

text \<open>\<^verbatim>\<open>TimePointToRaceTimePoint\<close>: the time point in units of 100 nanoseconds.\<close>

definition TimePointToRaceTimePoint :: "time_point \<Rightarrow> nat" where
  "TimePointToRaceTimePoint timePoint = timePoint * 10000"

text \<open>
  The value \<open>stage\<close> of the race instance of a room, as \<^verbatim>\<open>_raceInstances[uid].stage\<close> reads
  it: a room without an instance reads as the default instance, which is waiting.
\<close>

definition stage_of :: "u32 \<Rightarrow> RaceDirector \<Rightarrow> Stage" where
  "stage_of room_uid d =
    (case map_of (raceInstances d) room_uid of
       None \<Rightarrow> stage default_RoomInstance
     | Some raceInstance \<Rightarrow> stage raceInstance)"

text \<open>
  The three loops of \<^verbatim>\<open>RaceDirector::Tick\<close>, each given by its body for one race instance.
  The clock reads \<open>now\<close> throughout one tick.  An exception leaves the tick with what has
  been done so far.  (The scheduler is drained before the loops; the closures the handlers
  of this theory queue there send notifications and assign no stage, and the drain is not
  modelled.)
\<close>

definition TickLoading_instance ::
  "CourseRegistry \<Rightarrow> time_point \<Rightarrow> u32 \<Rightarrow> RaceDirector \<Rightarrow> error option \<times> RaceDirector"
where
  "TickLoading_instance registry now raceUid d =
    (case map_of (raceInstances d) raceUid of
       None \<Rightarrow> (None, d)
     | Some raceInstance \<Rightarrow>
         if stage raceInstance \<noteq> Loading then (None, d)
         else
           (let allRacersLoaded =
                  list_all (\<lambda>(u, racer). state racer = Racer_Racing
                                          \<or> state racer = Racer_Disconnected)
                    (racers (tracker raceInstance));
                loadTimeoutReached = (now \<ge> stageTimeoutTimePoint raceInstance)
            in if \<not> allRacersLoaded \<and> \<not> loadTimeoutReached then (None, d)
               else
                 (let i1 = raceInstance\<lparr>tracker := (tracker raceInstance)
                            \<lparr>racers := map (\<lambda>(u, racer).
                                 (u, if state racer \<noteq> Racer_Racing
                                     then racer\<lparr>state := Racer_Disconnected\<rparr> else racer))
                               (racers (tracker raceInstance))\<rparr>\<rparr>
                  in case GetMapBlockInfo registry (ucast (raceMapBlockId i1)) of
                       None \<Rightarrow> (Some Registry_entry_missing, set_instance raceUid i1 d)
                     | Some mapBlockTemplate \<Rightarrow>
                         (let i2 = i1\<lparr>stage := Racing,
                                    stageTimeoutTimePoint :=
                                      now + 1000 * unat (timeLimit mapBlockTemplate),
                                    raceStartTimePoint :=
                                      now + 1000 * unat (waitTime mapBlockTemplate)\<rparr>;
                              raceCountdown = AcCmdUserRaceCountdown
                                (TimePointToRaceTimePoint (raceStartTimePoint i2))
                          in (None, broadcast (clients i2) raceCountdown
                                      (set_instance raceUid i2 d))))))"

definition TickLoading ::
  "CourseRegistry \<Rightarrow> time_point \<Rightarrow> RaceDirector \<Rightarrow> error option \<times> RaceDirector"
where
  "TickLoading registry now d =
     for_each (TickLoading_instance registry now) (map fst (raceInstances d)) d"

text \<open>The body of the race-final broadcast: the context of every client must be authorised.\<close>

definition race_final_to :: "u32 \<Rightarrow> ClientId \<Rightarrow> RaceDirector \<Rightarrow> error option \<times> RaceDirector" where
  "race_final_to raceUid raceClientId d =
    (case GetClientContext raceClientId True d of
       Inl e \<Rightarrow> (Some e, d)
     | Inr raceClientContext \<Rightarrow>
         (case map_of (raceInstances d) raceUid of
            None \<Rightarrow> (None, d)
          | Some raceInstance \<Rightarrow>
              if \<not> IsRacer (characterUid raceClientContext) (tracker raceInstance) then (None, d)
              else (None, QueueCommand raceClientId AcCmdUserRaceFinalNotify d)))"

definition TickRacing_instance ::
  "time_point \<Rightarrow> u32 \<Rightarrow> RaceDirector \<Rightarrow> error option \<times> RaceDirector"
where
  "TickRacing_instance now raceUid d =
    (case map_of (raceInstances d) raceUid of
       None \<Rightarrow> (None, d)
     | Some raceInstance \<Rightarrow>
         if stage raceInstance \<noteq> Racing then (None, d)
         else
           (let raceTimeoutReached = (now \<ge> stageTimeoutTimePoint raceInstance);
                isFinishing = list_ex (\<lambda>(u, racer). state racer = Racer_Finishing)
                                (racers (tracker raceInstance))
            in if \<not> isFinishing \<and> \<not> raceTimeoutReached then (None, d)
               else
                 (let i1 = raceInstance\<lparr>stage := Finishing,
                                          stageTimeoutTimePoint := now + 15000\<rparr>;
                      d1 = set_instance raceUid i1 d
                  in if raceTimeoutReached
                     then for_each (race_final_to raceUid) (clients i1) d1
                     else (None, d1))))"

definition TickRacing :: "time_point \<Rightarrow> RaceDirector \<Rightarrow> error option \<times> RaceDirector" where
  "TickRacing now d = for_each (TickRacing_instance now) (map fst (raceInstances d)) d"

text \<open>
  The scoreboard is a \<^verbatim>\<open>std::map\<close> from course time to character: of two racers with the
  same course time the first one visited stays.  A disconnected racer counts with the
  largest \<^verbatim>\<open>uint32_t\<close>.
\<close>

definition scoreboard_of :: "(Uid \<times> Racer) list \<Rightarrow> (u32 \<times> Uid) list" where
  "scoreboard_of rs =
     foldl (\<lambda>scoreboard (character_uid, racer).
              try_emplace (if state racer \<noteq> Racer_Disconnected then courseTime racer
                           else 0xFFFFFFFF)
                character_uid scoreboard)
       [] rs"

definition score_of :: "DataDirector \<Rightarrow> RaceTracker \<Rightarrow> u32 \<times> Uid \<Rightarrow> error + Score" where
  "score_of dataDirector t entry =
    (case entry of (course_time, character_uid) \<Rightarrow>
       (case GetRacer character_uid t of
          None \<Rightarrow> Inl Racer_does_not_exist
        | Some racer \<Rightarrow>
            (case GetCharacter dataDirector character_uid of
               None \<Rightarrow> Inl Record_unavailable
             | Some character \<Rightarrow>
                 (case GetHorseName dataDirector (character_mountUid character) of
                    None \<Rightarrow> Inl Record_unavailable
                  | Some mountName \<Rightarrow>
                      Inr \<lparr>score_uid = character_uid,
                           score_name = character_name character,
                           score_level = character_level character,
                           score_mountName = mountName,
                           score_courseTime = course_time,
                           score_connected = (state racer \<noteq> Racer_Disconnected)\<rparr>))))"

fun build_scores :: "DataDirector \<Rightarrow> RaceTracker \<Rightarrow> (u32 \<times> Uid) list \<Rightarrow> error + Score list" where
  "build_scores dataDirector t [] = Inr []"
| "build_scores dataDirector t (entry # entries) =
     (case score_of dataDirector t entry of
        Inl e \<Rightarrow> Inl e
      | Inr score \<Rightarrow>
          (case build_scores dataDirector t entries of
             Inl e \<Rightarrow> Inl e
           | Inr scores \<Rightarrow> Inr (score # scores)))"

definition TickFinishing_instance ::
  "DataDirector \<Rightarrow> time_point \<Rightarrow> u32 \<Rightarrow> RaceDirector \<Rightarrow> error option \<times> RaceDirector"
where
  "TickFinishing_instance dataDirector now raceUid d =
    (case map_of (raceInstances d) raceUid of
       None \<Rightarrow> (None, d)
     | Some raceInstance \<Rightarrow>
         if stage raceInstance \<noteq> Finishing then (None, d)
         else
           (let allRacersFinished =
                  list_all (\<lambda>(u, racer). state racer = Racer_Finishing
                                          \<or> state racer = Racer_Disconnected)
                    (racers (tracker raceInstance));
                finishTimeoutReached = (now \<ge> stageTimeoutTimePoint raceInstance)
            in if \<not> allRacersFinished \<and> \<not> finishTimeoutReached then (None, d)
               else
                 (case build_scores dataDirector (tracker raceInstance)
                         (scoreboard_of (racers (tracker raceInstance))) of
                    Inl e \<Rightarrow> (Some e, d)
                  | Inr scores \<Rightarrow>
                      (let d1 = broadcast (clients raceInstance)
                                  (AcCmdRCRaceResultNotify scores) d;
                           d2 = set_instance raceUid (raceInstance\<lparr>stage := Waiting\<rparr>) d1
                       in case roomSystem d2 raceUid of
                            None \<Rightarrow> (Some Room_does_not_exist, d2)
                          | Some room \<Rightarrow>
                              (None, d2\<lparr>roomSystem := (roomSystem d2)
                                         (raceUid \<mapsto> room\<lparr>roomIsPlaying := False\<rparr>)\<rparr>)))))"

definition TickFinishing ::
  "DataDirector \<Rightarrow> time_point \<Rightarrow> RaceDirector \<Rightarrow> error option \<times> RaceDirector"
where
  "TickFinishing dataDirector now d =
     for_each (TickFinishing_instance dataDirector now) (map fst (raceInstances d)) d"

definition Tick ::
  "CourseRegistry \<Rightarrow> DataDirector \<Rightarrow> time_point \<Rightarrow> RaceDirector \<Rightarrow> error option \<times> RaceDirector"
where
  "Tick registry dataDirector now d =
    (case TickLoading registry now d of
       (Some e, d1) \<Rightarrow> (Some e, d1)
     | (None, d1) \<Rightarrow>
         (case TickRacing now d1 of
            (Some e, d2) \<Rightarrow> (Some e, d2)
          | (None, d2) \<Rightarrow> TickFinishing dataDirector now d2))"

section \<open>Race director: starting the race\<close>

text \<open>
  The map block of the race.  For one of the pseudo-courses 10000, 10001 and 10002 and a
  non-empty map pool of the game mode, the maps whose required level is above the
  master's level, and those without a registry entry, are filtered out and
  \<^verbatim>\<open>uniform_int_distribution(0, size - 1)\<close> draws an index of the rest (\<open>draw\<close> is the entropy
  of the random device).  With nothing left the source constructs the distribution over
  \<open>(0, -1)\<close> and indexes an empty vector, which is undefined behaviour: the model raises
  \<open>Empty_distribution_range\<close>.  With an empty pool the map block is 1.
\<close>

definition select_map_block ::
  "CourseRegistry \<Rightarrow> DataDirector \<Rightarrow> nat \<Rightarrow> u8 \<Rightarrow> u32 \<Rightarrow> Uid \<Rightarrow> error + u16"
where
  "select_map_block registry dataDirector draw roomGameMode roomSelectedCourses master =
    (if roomSelectedCourses = 10000 \<or> roomSelectedCourses = 10001
        \<or> roomSelectedCourses = 10002
     then
       (case GetCourseGameModeInfo registry roomGameMode of
          None \<Rightarrow> Inl Registry_entry_missing
        | Some gameModeInfo \<Rightarrow>
            if mapPool gameModeInfo \<noteq> [] then
              (case GetCharacter dataDirector master of
                 None \<Rightarrow> Inl Record_unavailable
               | Some character \<Rightarrow>
                   (let masterLevel = character_level character;
                        filteredMaps =
                          filter (\<lambda>mapBlockId.
                                    case GetMapBlockInfo registry mapBlockId of
                                      Some mapBlockInfo \<Rightarrow> requiredLevel mapBlockInfo \<le> masterLevel
                                    | None \<Rightarrow> False)
                            (mapPool gameModeInfo)
                    in if filteredMaps = [] then Inl Empty_distribution_range
                       else Inr (ucast (filteredMaps ! (draw mod length filteredMaps)))))
            else Inr 1)
     else Inr (ucast roomSelectedCourses))"

text \<open>
  \<^verbatim>\<open>PrepareItemSpawners\<close>: an item for every templated item of the map block whose deck id
  the game mode uses; an exception of the registry is caught and leaves the tracker as it is.
\<close>

definition PrepareItemSpawners :: "CourseRegistry \<Rightarrow> RoomInstance \<Rightarrow> RoomInstance" where
  "PrepareItemSpawners registry raceInstance =
    (case GetCourseGameModeInfo registry (raceGameMode raceInstance) of
       None \<Rightarrow> raceInstance
     | Some gameModeInfo \<Rightarrow>
         (case GetMapBlockInfo registry (ucast (raceMapBlockId raceInstance)) of
            None \<Rightarrow> raceInstance
          | Some mapBlockInfo \<Rightarrow>
              raceInstance\<lparr>tracker :=
                foldl (\<lambda>t deck. AddItem deck t) (tracker raceInstance)
                  (concat (map (\<lambda>usedDeckItemId.
                                  filter (\<lambda>deck. deck = usedDeckItemId) (deckItems mapBlockInfo))
                             (usedDeckItemIds gameModeInfo)))\<rparr>))"

fun racer_team_of :: "Team \<Rightarrow> RacerTeam" where
  "racer_team_of Team_Solo = RacerTeam_Solo"
| "racer_team_of Team_Red = RacerTeam_Red"
| "racer_team_of Team_Blue = RacerTeam_Blue"

text \<open>
  The racers of the race: one for every committed player of the room, loading.  The room's
  players are an unordered map; they are visited in ascending order of their uid here.
\<close>

definition add_racers :: "Room \<Rightarrow> RaceTracker \<Rightarrow> RaceTracker" where
  "add_racers room t =
     foldl (\<lambda>t' character_uid.
              (let t1 = AddRacer character_uid t'
               in t1\<lparr>racers := modify character_uid
                     (\<lambda>racer. racer\<lparr>state := Racer_Loading,
                        racer_team := (case fmlookup (players room) character_uid of
                                         Some roomPlayer \<Rightarrow> racer_team_of (team roomPlayer)
                                       | None \<Rightarrow> racer_team racer)\<rparr>)
                     (racers t1)\<rparr>))
       t (sorted_list_of_fset (fmdom (players room)))"

text \<open>
  \<^verbatim>\<open>HandleStartRace\<close>.  The command itself is not read by the handler.  Both the race game
  mode and the race team mode are cast from \<^verbatim>\<open>details.gameMode\<close>.
\<close>

definition HandleStartRace ::
  "CourseRegistry \<Rightarrow> DataDirector \<Rightarrow> nat \<Rightarrow> time_point \<Rightarrow> ClientId \<Rightarrow> RaceDirector
     \<Rightarrow> error option \<times> RaceDirector"
where
  "HandleStartRace registry dataDirector draw now clientId d =
    (case GetClientContext clientId True d of
       Inl e \<Rightarrow> (Some e, d)
     | Inr clientContext \<Rightarrow>
         (case instance_at (roomUid clientContext) d of
            (raceInstance, d1) \<Rightarrow>
              if characterUid clientContext \<noteq> masterUid raceInstance
              then (Some Not_the_master, d1)
              else
                (case roomSystem d1 (roomUid clientContext) of
                   None \<Rightarrow> (Some Room_does_not_exist, d1)
                 | Some room \<Rightarrow>
                     (let i1 = raceInstance
                            \<lparr>raceGameMode := GameMode_value (gameMode (details room)),
                             raceTeamMode := GameMode_value (gameMode (details room)),
                             raceMissionId := missionId (details room)\<rparr>;
                          roomGameMode = GameMode_value (gameMode (details room));
                          roomSelectedCourses = (ucast (courseId (details room)) :: u32)
                      in case select_map_block registry dataDirector draw roomGameMode
                                roomSelectedCourses (masterUid i1) of
                           Inl e \<Rightarrow> (Some e, set_instance (roomUid clientContext) i1 d1)
                         | Inr mapBlockId \<Rightarrow>
                             (let i2 = i1\<lparr>raceMapBlockId := mapBlockId\<rparr>;
                                  d2 = broadcast (clients i2)
                                         (AcCmdRCRoomCountdown 3000 (raceMapBlockId i2)) d1;
                                  i3 = i2\<lparr>tracker := Clear (tracker i2)\<rparr>;
                                  i4 = PrepareItemSpawners registry i3;
                                  i5 = i4\<lparr>tracker := add_racers room (tracker i4)\<rparr>;
                                  i6 = i5\<lparr>stage := Loading,
                                           stageTimeoutTimePoint := now + 30000\<rparr>;
                                  d3 = set_instance (roomUid clientContext) i6 d2;
                                  d4 = d3\<lparr>roomSystem := (roomSystem d3)
                                          (roomUid clientContext \<mapsto> room\<lparr>roomIsPlaying := True\<rparr>)\<rparr>
                              in (None, d4\<lparr>scheduled := scheduled d4
                                            @ [(now + 3000, StartRaceNotify clientId)]\<rparr>))))))"

section \<open>Race director: observed stages\<close>


definition tick_worlds ::
  "CourseRegistry \<Rightarrow> DataDirector \<Rightarrow> time_point \<Rightarrow> RaceDirector \<Rightarrow> RaceDirector list"
where
  "tick_worlds registry dataDirector now d =
    (case TickLoading registry now d of
       (Some e, d1) \<Rightarrow> [d1]
     | (None, d1) \<Rightarrow>
         (case TickRacing now d1 of
            (Some e, d2) \<Rightarrow> [d1, d2]
          | (None, d2) \<Rightarrow> [d1, d2, snd (TickFinishing dataDirector now d2)]))"







text \<open>Records of the data director for the concrete race: the master, character 42, has level 5.\<close>

definition example_data :: DataDirector where
  "example_data = \<lparr>
     GetCharacter = (\<lambda>u. if u = 42 then Some \<lparr>character_name = ''alice'', character_level = 5, character_mountUid = 7\<rparr>
                         else if u = 43 then Some \<lparr>character_name = ''bob'', character_level = 1, character_mountUid = 8\<rparr>
                         else None),
     GetHorseName = (\<lambda>h. if h = 7 then Some ''storm'' else if h = 8 then Some ''cloud'' else None)\<rparr>"

text \<open>The room of the concrete race before its first race: the instance is waiting.\<close>

definition example_director_waiting :: RaceDirector where
  "example_director_waiting =
     set_instance 1 (example_instance\<lparr>stage := Waiting, tracker := default_RaceTracker\<rparr>)
       (example_director\<lparr>roomSystem := [1 \<mapsto> example_room\<lparr>roomIsPlaying := False\<rparr>]\<rparr>)"



section \<open>Lobby: login\<close>

text \<open>\<^verbatim>\<open>AcCmdCLLoginCancel::Reason\<close>, with its wire values.\<close>

datatype Reason =
    Generic | InvalidUser | Duplicated | InvalidVersion | InvalidEquipment | InvalidLoginId
  | DisconnectYourself

fun Reason_value :: "Reason \<Rightarrow> u8" where
  "Reason_value Generic = 0"
| "Reason_value InvalidUser = 1"
| "Reason_value Duplicated = 2"
| "Reason_value InvalidVersion = 3"
| "Reason_value InvalidEquipment = 4"
| "Reason_value InvalidLoginId = 5"
| "Reason_value DisconnectYourself = 6"

record AcCmdCLLogin =
  constant0 :: u16
  constant1 :: u16
  loginId :: string
  memberNo :: u32
  authKey :: string
  val0 :: u8

text \<open>The clientbound commands of the login pipeline; the payload of login-ok is not modelled.\<close>

datatype LobbyCommand =
    AcCmdCLLoginCancel Reason
  | LobbyCommandLoginOK
  | AcCmdLCSkillCardPresetList
  | LobbyCommandCreateNicknameNotify

text \<open>\<^verbatim>\<open>LobbyNetworkHandler::ClientContext\<close>.\<close>

record LobbyClientContext =
  client_isAuthenticated :: bool
  client_justCreatedCharacter :: bool
  client_userName :: string
  client_characterUid :: Uid
  client_rancherVisitPreference :: Uid

definition default_LobbyClientContext :: LobbyClientContext where
  "default_LobbyClientContext = \<lparr>client_isAuthenticated = False,
     client_justCreatedCharacter = False, client_userName = [],
     client_characterUid = InvalidUid, client_rancherVisitPreference = InvalidUid\<rparr>"

text \<open>\<^verbatim>\<open>LobbyDirector::QueuedLogin\<close> and \<^verbatim>\<open>LobbyDirector::UserInstance\<close>.\<close>

record QueuedLogin =
  userName :: string
  userToken :: string
  userLoadRequested :: bool
  userCharacterLoadRequested :: bool

definition default_QueuedLogin :: QueuedLogin where
  "default_QueuedLogin = \<lparr>userName = [], userToken = [], userLoadRequested = False,
     userCharacterLoadRequested = False\<rparr>"

record UserInstance =
  ranchOtpCode :: u32
  raceOtpCode :: u32
  instance_userName :: string
  instance_characterUid :: Uid
  instance_roomUid :: Uid

definition default_UserInstance :: UserInstance where
  "default_UserInstance = \<lparr>ranchOtpCode = 0, raceOtpCode = 0, instance_userName = [],
     instance_characterUid = InvalidUid, instance_roomUid = InvalidUid\<rparr>"

text \<open>The closures the network handler hands to the lobby director's scheduler.\<close>

datatype LobbyTask =
    Task_QueueClientConnect ClientId
  | Task_QueueClientLogin ClientId string string
  | Task_ClientDisconnected bool ClientId string

text \<open>Calls of the data director that start an asynchronous load.\<close>

datatype LoadRequest =
    RequestLoadUserData string
  | RequestLoadCharacterData string Uid

text \<open>
  The lobby director with its network handler.  \<^verbatim>\<open>lobbyClients\<close> is the handler's
  \<^verbatim>\<open>_clients\<close> (an unordered map, here in the order its loops visit it);
  \<^verbatim>\<open>lobbyCommandQueue\<close> holds what \<^verbatim>\<open>QueueCommand\<close> was given, oldest first.
\<close>

record Lobby =
  lobbyClients :: "(ClientId \<times> LobbyClientContext) list"
  lobbyCommandQueue :: "(ClientId \<times> LobbyCommand) list"
  clientLogins :: "ClientId \<rightharpoonup> QueuedLogin"
  userInstances :: "string \<rightharpoonup> UserInstance"
  charactersForcedIntoCreator :: "Uid fset"
  loginRequestQueue :: "ClientId list"
  loginResponseQueue :: "ClientId list"
  lobbyScheduler :: "LobbyTask list"
  loadRequests :: "LoadRequest list"

text \<open>
  The data director and the infraction system are collaborators whose code is not part
  of the source.  What they answer at one moment is a \<open>LobbyData\<close>; records are loaded by
  another thread, so the answers change with time.
\<close>

record User =
  token :: string
  user_characterUid :: Uid

record LobbyData =
  AreDataBeingLoaded :: "string \<Rightarrow> bool"
  AreUserDataLoaded :: "string \<Rightarrow> bool"
  AreCharacterDataLoaded :: "string \<Rightarrow> bool"
  GetUser :: "string \<Rightarrow> User option"
  preventServerJoining :: "string \<Rightarrow> bool"
  LoginOK_records_available :: "string \<Rightarrow> bool"

subsection \<open>Network handler\<close>

definition GetLobbyClientContext :: "ClientId \<Rightarrow> bool \<Rightarrow> Lobby \<Rightarrow> error + LobbyClientContext" where
  "GetLobbyClientContext clientId requireAuthentication l =
    (case map_of (lobbyClients l) clientId of
       None \<Rightarrow> Inl Lobby_client_is_not_available
     | Some clientContext \<Rightarrow>
         if requireAuthentication \<and> \<not> client_isAuthenticated clientContext
         then Inl Lobby_client_is_not_authenticated
         else Inr clientContext)"

definition LobbyQueueCommand :: "ClientId \<Rightarrow> LobbyCommand \<Rightarrow> Lobby \<Rightarrow> Lobby" where
  "LobbyQueueCommand clientId command l =
     l\<lparr>lobbyCommandQueue := lobbyCommandQueue l @ [(clientId, command)]\<rparr>"

definition SendLoginCancel :: "ClientId \<Rightarrow> Reason \<Rightarrow> Lobby \<Rightarrow> Lobby" where
  "SendLoginCancel clientId reason l = LobbyQueueCommand clientId (AcCmdCLLoginCancel reason) l"




text \<open>
  \<^verbatim>\<open>HandleLogin\<close>.  The version constants are checked by an \<^verbatim>\<open>assert\<close> only: where
  assertions are compiled in (\<open>assertions\<close>), a frame with other constants aborts the
  process; where they are not, the constants are not looked at.  The loop over the
  connected clients skips a client whose user name differs or who is not authenticated,
  and cancels the login at the first client it does not skip.
\<close>

datatype 'a outcome = Process_aborted | Returned 'a

definition HandleLogin ::
  "bool \<Rightarrow> ClientId \<Rightarrow> AcCmdCLLogin \<Rightarrow> Lobby \<Rightarrow> (error option \<times> Lobby) outcome"
where
  "HandleLogin assertions clientId command l =
    (if assertions \<and> \<not> (constant0 command = 50 \<and> constant1 command = 281)
     then Process_aborted
     else if loginId command = [] \<or> authKey command = []
     then Returned (None, SendLoginCancel clientId InvalidLoginId l)
     else if list_ex (\<lambda>(c, clientContext).
                        client_userName clientContext = loginId command
                        \<and> client_isAuthenticated clientContext)
               (lobbyClients l)
     then Returned (None, SendLoginCancel clientId Duplicated l)
     else
       (case GetLobbyClientContext clientId False l of
          Inl e \<Rightarrow> Returned (Some e, l)
        | Inr clientContext \<Rightarrow>
            Returned (None,
              l\<lparr>lobbyClients := modify clientId
                   (\<lambda>c. c\<lparr>client_userName := loginId command\<rparr>) (lobbyClients l),
                lobbyScheduler := lobbyScheduler l
                   @ [Task_QueueClientLogin clientId (loginId command) (authKey command)]\<rparr>)))"

subsection \<open>Director\<close>

definition QueueClientConnect :: "ClientId \<Rightarrow> Lobby \<Rightarrow> bool \<times> Lobby" where
  "QueueClientConnect clientId l =
    (case clientLogins l clientId of
       Some queued \<Rightarrow> (False, l)
     | None \<Rightarrow> (True, l\<lparr>clientLogins := (clientLogins l)(clientId \<mapsto> default_QueuedLogin)\<rparr>))"

definition QueueClientLogin :: "ClientId \<Rightarrow> string \<Rightarrow> string \<Rightarrow> Lobby \<Rightarrow> nat \<times> Lobby" where
  "QueueClientLogin clientId uname utoken l =
    (case clientLogins l clientId of
       None \<Rightarrow> (99, l)
     | Some queued \<Rightarrow>
         (let l1 = l\<lparr>clientLogins := (clientLogins l)
                       (clientId \<mapsto> queued\<lparr>userName := uname, userToken := utoken\<rparr>),
                     loginRequestQueue := loginRequestQueue l @ [clientId]\<rparr>
          in (length (loginRequestQueue l1) + length (loginResponseQueue l1), l1)))"

definition QueueClientDisconnect :: "ClientId \<Rightarrow> Lobby \<Rightarrow> Lobby" where
  "QueueClientDisconnect clientId l =
     l\<lparr>loginRequestQueue := removeAll clientId (loginRequestQueue l),
       loginResponseQueue := removeAll clientId (loginResponseQueue l),
       clientLogins := (clientLogins l)(clientId := None)\<rparr>"

definition QueueClientLogout :: "ClientId \<Rightarrow> string \<Rightarrow> Lobby \<Rightarrow> Lobby" where
  "QueueClientLogout clientId uname l = l\<lparr>userInstances := (userInstances l)(uname := None)\<rparr>"

text \<open>
  Modelled from the spec: the scheduler, a delayed-task queue drained by the owning
  director on each tick.  The lobby's tasks are queued without a delay: a drain runs them
  all, in the order in which they were queued.
\<close>

fun run_task :: "Lobby \<Rightarrow> LobbyTask \<Rightarrow> Lobby" where
  "run_task l (Task_QueueClientConnect clientId) = snd (QueueClientConnect clientId l)"
| "run_task l (Task_QueueClientLogin clientId uname utoken) =
     snd (QueueClientLogin clientId uname utoken l)"
| "run_task l (Task_ClientDisconnected wasAuthenticated clientId uname) =
     QueueClientDisconnect clientId
       (if wasAuthenticated then QueueClientLogout clientId uname l else l)"

definition Scheduler_Tick :: "Lobby \<Rightarrow> Lobby" where
  "Scheduler_Tick l = foldl run_task (l\<lparr>lobbyScheduler := []\<rparr>) (lobbyScheduler l)"







section \<open>A concrete lobby\<close>

text \<open>
  Client 1 is logged in as alice.  Clients 2, 3 and 4 are connected and not yet
  authenticated: client 2 has sent the login of bob and is at the head of the request
  queue with the user load requested, client 3 that of alice (a second session) and is at
  the head of the response queue with the character load requested, client 4 has sent
  nothing yet.
\<close>

definition example_lobby :: Lobby where
  "example_lobby = \<lparr>
     lobbyClients =
       [(1, default_LobbyClientContext\<lparr>client_isAuthenticated := True,
              client_userName := ''alice'', client_characterUid := 42\<rparr>),
        (2, default_LobbyClientContext\<lparr>client_userName := ''bob''\<rparr>),
        (3, default_LobbyClientContext\<lparr>client_userName := ''alice''\<rparr>),
        (4, default_LobbyClientContext)],
     lobbyCommandQueue = [],
     clientLogins =
       [2 \<mapsto> \<lparr>userName = ''bob'', userToken = ''B'', userLoadRequested = True,
                userCharacterLoadRequested = False\<rparr>,
        3 \<mapsto> \<lparr>userName = ''alice'', userToken = ''T'', userLoadRequested = True,
                userCharacterLoadRequested = True\<rparr>,
        4 \<mapsto> default_QueuedLogin],
     userInstances =
       [''alice'' \<mapsto> default_UserInstance\<lparr>instance_userName := ''alice'',
                         instance_characterUid := 42\<rparr>],
     charactersForcedIntoCreator = {||},
     loginRequestQueue = [2],
     loginResponseQueue = [3],
     lobbyScheduler = [],
     loadRequests = []\<rparr>"

text \<open>
  The collaborators' answers: both users are loaded, alice has character 42 and the token
  T, bob has no character and the token given as argument, and bob is prevented from
  joining when \<open>banned\<close>.
\<close>

definition example_lobby_data :: "string \<Rightarrow> bool \<Rightarrow> nat \<Rightarrow> LobbyData" where
  "example_lobby_data bobs_token banned t = \<lparr>
     AreDataBeingLoaded = (\<lambda>u. False),
     AreUserDataLoaded = (\<lambda>u. u = ''alice'' \<or> u = ''bob''),
     AreCharacterDataLoaded = (\<lambda>u. u = ''alice''),
     GetUser = (\<lambda>u. if u = ''alice'' then Some \<lparr>token = ''T'', user_characterUid = 42\<rparr>
                     else if u = ''bob'' then Some \<lparr>token = bobs_token, user_characterUid = InvalidUid\<rparr>
                     else None),
     preventServerJoining = (\<lambda>u. u = ''bob'' \<and> banned),
     LoginOK_records_available = (\<lambda>u. u = ''alice'')\<rparr>"

section \<open>Frame codec: proofs\<close>

lemma mask14_u32: "(16383 :: u32) = mask 14"
  by (simp add: mask_eq_exp_minus_1)

lemma mask8_u32: "(255 :: u32) = mask 8"
  by (simp add: mask_eq_exp_minus_1)

lemma mask4_u32: "(15 :: u32) = mask 4"
  by (simp add: mask_eq_exp_minus_1)

lemma bits_61440_u32: "(61440 :: u32) = push_bit 12 (mask 4)"
  by (simp add: mask_eq_exp_minus_1 push_bit_eq_mult)

lemma bits_65408_u32: "(65408 :: u32) = push_bit 7 (mask 9)"
  by (simp add: mask_eq_exp_minus_1 push_bit_eq_mult)

lemma mask16_u16: "(0xFFFF :: u16) = mask 16"
  by (simp add: mask_eq_exp_minus_1)

lemma bits_C000_u16: "(0xC000 :: u16) = push_bit 14 (mask 2)"
  by (simp add: mask_eq_exp_minus_1 push_bit_eq_mult)

lemma mask14_u16: "(0x3FFF :: u16) = mask 14"
  by (simp add: mask_eq_exp_minus_1)

lemma bits_below_32:
  "n < LENGTH(32) \<Longrightarrow> \<forall>k \<in> {..<32}. P k \<Longrightarrow> P n"
  by simp

lemma bits_below_16:
  "n < LENGTH(16) \<Longrightarrow> \<forall>k \<in> {..<16}. P k \<Longrightarrow> P n"
  by simp

text \<open>Every encoded header has bit 15 of its low half set, so both decoders accept it.\<close>

lemma encode_bit15: "bit (encode_message_information i j l b) 15"
  unfolding encode_message_information_def Let_def
    mask14_u32 mask8_u32 mask4_u32 bits_61440_u32 bits_65408_u32
  by (simp add: bit_simps)

lemma encode_accepted: "encode_message_information i j l b AND push_bit 15 1 \<noteq> 0"
proof
  assume "encode_message_information i j l b AND push_bit 15 1 = 0"
  then have "\<not> bit (encode_message_information i j l b AND push_bit 15 1) 15"
    by simp
  then show False
    using encode_bit15 [of i j l b] by (simp add: bit_simps)
qed

text \<open>The length decoder returns the low 14 bits of the encoded length, whatever the buffer size.\<close>

lemma decode_length_body:
  "(let section = (ucast (encode_message_information i j l b AND 16383) :: u16)
    in push_bit 4 (encode_message_information i j l b AND 255)
       OR (drop_bit 8 (ucast section) AND 15)
       OR (ucast section AND 61440)) = ucast l AND 16383"
  unfolding encode_message_information_def Let_def
    mask14_u32 mask8_u32 mask4_u32 bits_61440_u32 bits_65408_u32
  apply (rule bit_word_eqI)
  apply (erule bits_below_32)
  apply (simp add: lessThan_nat_numeral lessThan_Suc bit_simps)
  done

lemma decode_message_length_encode:
  "decode_message_length (encode_message_information i j l b) = ucast l AND 16383"
  unfolding decode_message_length_def
  using encode_accepted [of i j l b] decode_length_body [of i j l b] by simp

text \<open>The id decoder returns the low 14 bits of \<^verbatim>\<open>message_jumbo | message_id\<close>.\<close>

lemma decode_id_body:
  "(let data = encode_message_information i j l b;
        xorResult = (ucast data :: u16) XOR (ucast (drop_bit 16 data) :: u16)
    in NOT (xorResult AND 0xC000) AND xorResult) = (j OR i) AND 0x3FFF"
  unfolding encode_message_information_def Let_def
    mask14_u32 mask8_u32 mask4_u32 bits_61440_u32 bits_65408_u32
    mask16_u16 bits_C000_u16 mask14_u16
  apply (rule bit_word_eqI)
  apply (erule bits_below_16)
  apply (simp add: lessThan_nat_numeral lessThan_Suc bit_simps)
  apply blast?
  done

lemma decode_message_information_id:
  "map_option fst (decode_message_information (encode_message_information i j l b))
     = Some ((j OR i) AND 0x3FFF)"
  unfolding decode_message_information_def
  using encode_accepted [of i j l b] decode_id_body [of i j l b]
  by (simp add: Let_def)

lemma and_mask14_u16: "x \<le> 0x3FFF \<Longrightarrow> x AND (0x3FFF :: u16) = x"
proof -
  assume "x \<le> 0x3FFF"
  then have "uint x < 2 ^ 14"
    by (simp add: word_le_def)
  then show ?thesis
    unfolding mask14_u16 by (simp add: mask_eq_iff)
qed

lemma ucast_and_mask14:
  "l \<le> (0x3FFF :: u16) \<Longrightarrow> (ucast l :: u32) AND 16383 = ucast l"
proof -
  assume "l \<le> 0x3FFF"
  then have "uint l < 2 ^ 14"
    by (simp add: word_le_def)
  then have "uint (ucast l :: u32) < 2 ^ 14"
    by (simp add: uint_up_ucast is_up)
  then show ?thesis
    unfolding mask14_u32 by (simp add: mask_eq_iff)
qed

subsection \<open>Claim C1\<close>

text \<open>
  C1 as stated fails on the code.  The call of the self-test, \<^verbatim>\<open>encode(29, 7, 16384)\<close>
  (message id 29, jumbo 7, data length 16384, default buffer size 4092), returns
  \<^verbatim>\<open>0x801F8000\<close> and not \<^verbatim>\<open>0x8D06CD01\<close>; the length 16384 = \<^verbatim>\<open>0x4000\<close>, which is
  below \<^verbatim>\<open>0x7FFF\<close>, decodes to 0 with either decoder; and the message id \<^verbatim>\<open>0x4000\<close>
  decodes to 0.
\<close>

theorem C1_frame_codec_counterexample:
  "encode_message_information 29 7 16384 4092 \<noteq> 0x8D06CD01
   \<and> encode_message_information 29 7 16384 4092 = 0x801F8000
   \<and> (0x4000 :: u16) \<le> 0x7FFF
   \<and> decode_message_length (encode_message_information 29 0 0x4000 4092) \<noteq> 0x4000
   \<and> decode_message_information (encode_message_information 29 0 0x4000 4092) \<noteq> Some (29, 0x4000)
   \<and> decode_message_information (encode_message_information 0x4000 0 29 4092) \<noteq> Some (0x4000, 29)"
  by (simp add: encode_message_information_def decode_message_length_def
      decode_message_information_def Let_def)

text \<open>
  C1 (amended): the header carries 14 bits of the length and the decoder keeps 14 bits of
  the id.  For every message id up to \<^verbatim>\<open>0x3FFF\<close> (jumbo 0), every payload length up to
  \<^verbatim>\<open>0x3FFF\<close> and every buffer size, the encoded header is accepted,
  \<^verbatim>\<open>decode_message_length\<close> recovers exactly the length and the id decoded by
  \<^verbatim>\<open>decode_message_information\<close> is exactly the message id.  In particular the header
  \<^verbatim>\<open>0x8D06CD01\<close> is the encoding of id 7 with jumbo 16384 and length 29, and its decoded
  length is 29.
\<close>

theorem C1_frame_codec_roundtrip:
  assumes "message_id \<le> 0x3FFF" and "len \<le> 0x3FFF"
  shows "decode_message_length (encode_message_information message_id 0 len buffer_size) = ucast len
    \<and> map_option fst (decode_message_information
          (encode_message_information message_id 0 len buffer_size)) = Some message_id
    \<and> encode_message_information 7 16384 29 4092 = 0x8D06CD01
    \<and> decode_message_length 0x8D06CD01 = 29"
proof -
  have "decode_message_length (encode_message_information message_id 0 len buffer_size) = ucast len"
    using decode_message_length_encode [of message_id 0 len buffer_size]
      ucast_and_mask14 [OF assms(2)] by simp
  moreover have "map_option fst (decode_message_information
      (encode_message_information message_id 0 len buffer_size)) = Some message_id"
    using decode_message_information_id [of message_id 0 len buffer_size]
      and_mask14_u16 [OF assms(1)] by simp
  moreover have "encode_message_information 7 16384 29 4092 = 0x8D06CD01"
    by (simp add: encode_message_information_def Let_def)
  moreover have "decode_message_length 0x8D06CD01 = 29"
    by (simp add: decode_message_length_def Let_def)
  ultimately show ?thesis by blast
qed

theorem C1_frame_codec_roundtrip_witness:
  "(29 :: u16) \<le> 0x3FFF \<and> (1000 :: u16) \<le> 0x3FFF
   \<and> decode_message_length (encode_message_information 29 0 1000 4092) = 1000
   \<and> map_option fst (decode_message_information (encode_message_information 29 0 1000 4092))
       = Some 29"
proof -
  have a: "(29 :: u16) \<le> 0x3FFF" by simp
  have b: "(1000 :: u16) \<le> 0x3FFF" by simp
  show ?thesis
    using C1_frame_codec_roundtrip [OF a b, of 4092] a b by simp
qed

section \<open>Room system: proofs\<close>

lemma QueuePlayer_inv:
  assumes "room_capacity_ok room" "room_disjoint room" "c |\<notin>| fmdom (players room)"
  shows "room_capacity_ok (snd (QueuePlayer c room)) \<and> room_disjoint (snd (QueuePlayer c room))"
  using assms
  by (auto simp: room_capacity_ok_def room_disjoint_def QueuePlayer_def IsRoomFull_def
      fcard_finsert_if)

lemma DequeuePlayer_inv:
  assumes "room_capacity_ok room" "room_disjoint room"
  shows "room_capacity_ok (snd (DequeuePlayer c room)) \<and> room_disjoint (snd (DequeuePlayer c room))"
proof -
  have "fcard (queuedPlayers room |-| {|c|}) \<le> fcard (queuedPlayers room)"
    by (rule fcard_fminus1_le)
  then show ?thesis
    using assms by (auto simp: room_capacity_ok_def room_disjoint_def DequeuePlayer_def)
qed

lemma RemovePlayer_inv:
  assumes "room_capacity_ok room" "room_disjoint room"
  shows "room_capacity_ok (RemovePlayer c room) \<and> room_disjoint (RemovePlayer c room)"
proof -
  have "fcard (fmdom (players room) |-| {|c|}) \<le> fcard (fmdom (players room))"
    by (rule fcard_fminus1_le)
  then show ?thesis
    using assms by (auto simp: room_capacity_ok_def room_disjoint_def RemovePlayer_def)
qed

lemma AddPlayer_inv:
  assumes "room_capacity_ok room" "room_disjoint room" "c |\<in>| queuedPlayers room"
  shows "room_capacity_ok (snd (AddPlayer rv c room)) \<and> room_disjoint (snd (AddPlayer rv c room))"
proof -
  from assms(2,3) have notin: "c |\<notin>| fmdom (players room)"
    by (auto simp: room_disjoint_def)
  have "fcard (queuedPlayers room |-| {|c|}) = fcard (queuedPlayers room) - 1"
    using assms(3) by (rule fcard_fminus_fsingleton)
  moreover have "fcard (queuedPlayers room) > 0"
    using assms(3) by (metis fcard_0_eq fempty_iff gr0I)
  ultimately show ?thesis
    using assms notin
    by (auto simp: room_capacity_ok_def room_disjoint_def AddPlayer_def Let_def fcard_finsert_if)
qed

lemma room_call_inv:
  assumes "room_capacity_ok room" "room_disjoint room" "admission_call c room"
  shows "room_capacity_ok (room_call c room) \<and> room_disjoint (room_call c room)"
proof (cases c)
  case (Call_QueuePlayer x)
  then show ?thesis using assms QueuePlayer_inv [of room x] by simp
next
  case (Call_DequeuePlayer x)
  then show ?thesis using assms DequeuePlayer_inv [of room x] by simp
next
  case (Call_AddPlayer rv x)
  then show ?thesis using assms AddPlayer_inv [of room x rv] by simp
next
  case (Call_RemovePlayer x)
  then show ?thesis using assms RemovePlayer_inv [of room x] by simp
qed

lemma room_calls_inv:
  "room_capacity_ok room \<Longrightarrow> room_disjoint room \<Longrightarrow> admission_calls cs room \<Longrightarrow>
   room_capacity_ok (room_calls cs room) \<and> room_disjoint (room_calls cs room)"
proof (induction cs arbitrary: room)
  case Nil
  then show ?case by simp
next
  case (Cons c cs)
  from Cons.prems have "room_capacity_ok (room_call c room) \<and> room_disjoint (room_call c room)"
    using room_call_inv [of room c] by simp
  then show ?case using Cons.IH [of "room_call c room"] Cons.prems by simp
qed

lemma AddPlayer_commit:
  "fst (AddPlayer rv c room) \<Longrightarrow>
     c |\<notin>| queuedPlayers (snd (AddPlayer rv c room))
     \<and> c |\<in>| fmdom (players (snd (AddPlayer rv c room)))"
  by (auto simp: AddPlayer_def Let_def split: if_splits)


subsection \<open>Claim C3\<close>

text \<open>
  C3 as stated fails on the code.  \<^verbatim>\<open>AddPlayer\<close> compares only the number of committed
  players with the capacity, so in a room of capacity 1 the calls \<^verbatim>\<open>QueuePlayer(1)\<close>,
  \<^verbatim>\<open>AddPlayer(2)\<close> leave one queued and one committed player; and \<^verbatim>\<open>QueuePlayer\<close> does not
  look at the committed players, so in a room of capacity 2 the calls \<^verbatim>\<open>QueuePlayer(1)\<close>,
  \<^verbatim>\<open>AddPlayer(1)\<close>, \<^verbatim>\<open>QueuePlayer(1)\<close> leave character 1 both committed and queued.  Both
  rooms start empty, where the invariant holds.
\<close>

theorem C3_room_invariant_counterexample:
  "room_capacity_ok (new_room 1 (example_details 1))
   \<and> room_disjoint (new_room 1 (example_details 1))
   \<and> \<not> room_capacity_ok
        (room_calls [Call_QueuePlayer 1, Call_AddPlayer 0 2] (new_room 1 (example_details 1)))
   \<and> room_capacity_ok (new_room 1 (example_details 2))
   \<and> room_disjoint (new_room 1 (example_details 2))
   \<and> \<not> room_disjoint
        (room_calls [Call_QueuePlayer 1, Call_AddPlayer 0 1, Call_QueuePlayer 1]
           (new_room 1 (example_details 2)))"
  by (simp add: room_capacity_ok_def room_disjoint_def new_room_def example_details_def
      QueuePlayer_def AddPlayer_def IsRoomFull_def Let_def fcard_fempty fcard_finsert_if)

text \<open>
  C3 (amended): along the admission path, that is for every room in which the invariant
  holds and every sequence of \<^verbatim>\<open>QueuePlayer\<close>, \<^verbatim>\<open>DequeuePlayer\<close>, \<^verbatim>\<open>AddPlayer\<close> and
  \<^verbatim>\<open>RemovePlayer\<close> calls in which \<^verbatim>\<open>QueuePlayer\<close> is called only for a character that is
  not a committed player and \<^verbatim>\<open>AddPlayer\<close> only for a character that is queued,
  \<open>|players| + |queued_players| \<le> max_player_count\<close> holds afterwards and no character is
  both committed and queued.  Every successful \<^verbatim>\<open>AddPlayer\<close> (on any room, for any
  character) leaves the character committed and not queued.
\<close>

theorem C3_room_invariant_admission:
  assumes "room_capacity_ok room" and "room_disjoint room" and "admission_calls cs room"
  shows "room_capacity_ok (room_calls cs room)
    \<and> room_disjoint (room_calls cs room)
    \<and> (\<forall>rv c r. fst (AddPlayer rv c r) \<longrightarrow>
          c |\<notin>| queuedPlayers (snd (AddPlayer rv c r))
          \<and> c |\<in>| fmdom (players (snd (AddPlayer rv c r))))"
  using room_calls_inv [OF assms] AddPlayer_commit by blast

theorem C3_room_invariant_admission_witness:
  "room_capacity_ok (new_room 1 (example_details 2))
   \<and> room_disjoint (new_room 1 (example_details 2))
   \<and> admission_calls
        [Call_QueuePlayer 1, Call_AddPlayer 0 1, Call_QueuePlayer 2, Call_QueuePlayer 3,
         Call_RemovePlayer 1, Call_DequeuePlayer 2]
        (new_room 1 (example_details 2))
   \<and> room_capacity_ok (room_calls
        [Call_QueuePlayer 1, Call_AddPlayer 0 1, Call_QueuePlayer 2, Call_QueuePlayer 3,
         Call_RemovePlayer 1, Call_DequeuePlayer 2]
        (new_room 1 (example_details 2)))
   \<and> room_disjoint (room_calls
        [Call_QueuePlayer 1, Call_AddPlayer 0 1, Call_QueuePlayer 2, Call_QueuePlayer 3,
         Call_RemovePlayer 1, Call_DequeuePlayer 2]
        (new_room 1 (example_details 2)))
   \<and> fst (AddPlayer 0 1 (snd (QueuePlayer 1 (new_room 1 (example_details 2)))))
   \<and> 1 |\<in>| fmdom (players (snd (AddPlayer 0 1 (snd (QueuePlayer 1 (new_room 1 (example_details 2)))))))"
proof -
  have a: "room_capacity_ok (new_room 1 (example_details 2))"
    by (simp add: room_capacity_ok_def new_room_def example_details_def fcard_fempty)
  have b: "room_disjoint (new_room 1 (example_details 2))"
    by (simp add: room_disjoint_def new_room_def)
  have c: "admission_calls
        [Call_QueuePlayer 1, Call_AddPlayer 0 1, Call_QueuePlayer 2, Call_QueuePlayer 3,
         Call_RemovePlayer 1, Call_DequeuePlayer 2]
        (new_room 1 (example_details 2))"
    by (simp add: new_room_def example_details_def QueuePlayer_def DequeuePlayer_def
        RemovePlayer_def AddPlayer_def IsRoomFull_def Let_def fcard_fempty fcard_finsert_if)
  have d: "fst (AddPlayer 0 1 (snd (QueuePlayer 1 (new_room 1 (example_details 2)))))"
    by (simp add: new_room_def example_details_def QueuePlayer_def AddPlayer_def
        IsRoomFull_def Let_def fcard_fempty fcard_finsert_if)
  show ?thesis
    using C3_room_invariant_admission [OF a b c] a b c d by blast
qed
section \<open>Race director: proofs about the gauge handlers\<close>

lemma map_of_modify:
  "map_of (modify k f kvs) k' = (if k' = k then map_option f (map_of kvs k) else map_of kvs k')"
  by (induction kvs) (auto simp: modify_def)

lemma racer_of_client_present:
  assumes "clientContexts d clientId = Some clientContext"
    and "isAuthenticated clientContext"
    and "map_of (raceInstances d) (roomUid clientContext) = Some raceInstance"
    and "map_of (racers (tracker raceInstance)) (characterUid clientContext) = Some racer"
  shows "racer_of_client clientId d = Inr (clientContext, raceInstance, racer, d)"
  using assms
  by (simp add: racer_of_client_def GetClientContext_def instance_at_def GetRacer_def)

lemma racer_in_set_instance:
  assumes "map_of (raceInstances d) room = Some raceInstance"
    and "map_of (racers (tracker raceInstance)) character = Some racer"
  shows "racer_in room character (set_instance room (set_racer character racer1 raceInstance) d)
           = Some racer1"
  using assms
  by (simp add: racer_in_def set_instance_def set_racer_def GetRacer_def map_of_modify)

lemma racer_in_QueueCommand [simp]:
  "racer_in room character (QueueCommand c m d) = racer_in room character d"
  by (simp add: racer_in_def QueueCommand_def)

lemma racer_in_broadcast [simp]:
  "racer_in room character (broadcast cs m d) = racer_in room character d"
  unfolding broadcast_def by (induction cs arbitrary: d) simp_all

lemma commandQueue_set_instance [simp]:
  "commandQueue (set_instance room i d) = commandQueue d"
  by (simp add: set_instance_def)


lemma unat_min_word: "unat (min a b) = min (unat a) (unat (b :: 'a::len word))"
  by (simp add: min_def word_le_nat_alt)

lemma unat_add_u32:
  "unat a + unat b < 2 ^ 32 \<Longrightarrow> unat (a + b :: u32) = unat a + unat b"
  by (simp add: unat_add_lem [THEN iffD1])


lemma example_director_racer_42:
  "clientContexts example_director 1
     = Some \<lparr>characterUid = 42, roomUid = 1, isAuthenticated = True\<rparr>"
  "map_of (raceInstances example_director) 1 = Some example_instance"
  "map_of (racers (tracker example_instance)) 42 = Some (example_racer 1)"
  "GetCourseGameModeInfo example_registry (raceGameMode example_instance)
     = Some example_speed_template"
  by (simp_all add: example_director_def example_instance_def example_registry_def)

subsection \<open>Claim C7\<close>



subsection \<open>Claim C4\<close>

lemma combo_increment_nat:
  "c \<le> (99 :: u32) \<Longrightarrow> unat (min 99 (c + 1)) = min 99 (unat c + 1)"
proof -
  assume "c \<le> 99"
  then have "unat c \<le> 99" by (simp add: word_le_nat_alt)
  then have "unat (c + 1) = unat c + 1"
    using unat_add_u32 [of c 1] by simp
  then show ?thesis by (simp add: unat_min_word)
qed

lemma unat_mult_u32:
  "unat a * unat b < 2 ^ 32 \<Longrightarrow> unat (a * b :: u32) = unat a * unat b"
  by (simp add: unat_mult_lem [THEN iffD1])

lemma perfect_gain_nat:
  fixes star pj unit bonus combo mx :: u32
  assumes "unat star + unat pj + min (unat bonus) (unat combo) * unat unit < 2 ^ 32"
  shows "unat (min (star + pj + min bonus combo * unit) mx)
     = min (unat star + unat pj + min (unat bonus) (unat combo) * unat unit) (unat mx)"
proof -
  have m: "unat (min bonus combo * unit) = min (unat bonus) (unat combo) * unat unit"
    using assms unat_mult_u32 [of "min bonus combo" unit] by (simp add: unat_min_word)
  have a: "unat (star + pj) = unat star + unat pj"
    using assms unat_add_u32 [of star pj] by simp
  have "unat (star + pj + min bonus combo * unit)
      = unat star + unat pj + min (unat bonus) (unat combo) * unat unit"
    using assms unat_add_u32 [of "star + pj" "min bonus combo * unit"] m a by simp
  then show ?thesis by (simp add: unat_min_word)
qed

lemma HandleHurdleClearResult_racer:
  assumes "clientContexts d clientId = Some clientContext"
    and "isAuthenticated clientContext"
    and "map_of (raceInstances d) (roomUid clientContext) = Some raceInstance"
    and "map_of (racers (tracker raceInstance)) (characterUid clientContext) = Some racer"
    and "GetCourseGameModeInfo registry (raceGameMode raceInstance) = Some gameModeTemplate"
    and "hcr_characterOid command = oid racer"
  shows "(hurdleClearType command = Perfect \<longrightarrow>
            fst (HandleHurdleClearResult registry clientId command d) = None
          \<and> racer_in (roomUid clientContext) (characterUid clientContext)
              (snd (HandleHurdleClearResult registry clientId command d))
              = Some (racer\<lparr>jumpComboValue := min 99 (jumpComboValue racer + 1),
                  starPointValue :=
                    min (starPointValue racer + perfectJumpStarPoints gameModeTemplate
                          + min (perfectJumpMaxBonusCombo gameModeTemplate)
                                (min 99 (jumpComboValue racer + 1))
                            * perfectJumpUnitStarPoints gameModeTemplate)
                        (starPointsMax gameModeTemplate)\<rparr>))
      \<and> (hurdleClearType command = Good \<or> hurdleClearType command = DoubleJumpOrGlide \<longrightarrow>
            fst (HandleHurdleClearResult registry clientId command d) = None
          \<and> racer_in (roomUid clientContext) (characterUid clientContext)
              (snd (HandleHurdleClearResult registry clientId command d))
              = Some (racer\<lparr>jumpComboValue := 0,
                  starPointValue :=
                    min (starPointValue racer + goodJumpStarPoints gameModeTemplate)
                        (starPointsMax gameModeTemplate)\<rparr>))
      \<and> (hurdleClearType command = Collision \<longrightarrow>
            fst (HandleHurdleClearResult registry clientId command d) = None
          \<and> racer_in (roomUid clientContext) (characterUid clientContext)
              (snd (HandleHurdleClearResult registry clientId command d))
              = Some (racer\<lparr>jumpComboValue := 0\<rparr>))"
  using racer_of_client_present [OF assms(1-4)] assms(5,6)
    racer_in_set_instance [OF assms(3,4)]
  by (auto simp add: HandleHurdleClearResult_def Let_def)

lemmas example_defs = example_director_def example_instance_def example_registry_def
  example_racer_def default_Racer_def example_speed_template_def

lemmas handler_defs = racer_of_client_def GetClientContext_def instance_at_def GetRacer_def
  set_instance_def set_racer_def QueueCommand_def modify_def racer_in_def

text \<open>
  C4: for a racer's authorised client whose command carries the racer's OID,
  \<^verbatim>\<open>HandleHurdleClearResult\<close> returns without raising and leaves the racer changed as
  follows.  Perfect: \<open>jump_combo_value := min 99 (jump_combo_value + 1)\<close> and the gauge
  grows by \<open>perfectJumpStarPoints + min perfectJumpMaxBonusCombo combo * perfectJumpUnitStarPoints\<close>
  for the new combo, clamped to \<open>starPointsMax\<close>.  Good or DoubleJumpOrGlide: the combo is 0
  and the gauge grows by \<open>goodJumpStarPoints\<close>, clamped.  Collision: the combo is 0 and
  the gauge is as before.  The arithmetic is that of \<^verbatim>\<open>uint32_t\<close>; for a combo within
  \<open>[0, 99]\<close> and a sum within the range it is the arithmetic of the numbers.  With the
  template of the specification's scenario, three perfect jumps in a row from an empty gauge
  leave it at 1200, 2600 and 4200.
\<close>

theorem C4_hurdle_clear_result:
  assumes "clientContexts d clientId = Some clientContext"
    and "isAuthenticated clientContext"
    and "map_of (raceInstances d) (roomUid clientContext) = Some raceInstance"
    and "map_of (racers (tracker raceInstance)) (characterUid clientContext) = Some racer"
    and "GetCourseGameModeInfo registry (raceGameMode raceInstance) = Some gameModeTemplate"
    and "hcr_characterOid command = oid racer"
  shows "(hurdleClearType command = Perfect \<longrightarrow>
            fst (HandleHurdleClearResult registry clientId command d) = None
          \<and> racer_in (roomUid clientContext) (characterUid clientContext)
              (snd (HandleHurdleClearResult registry clientId command d))
              = Some (racer\<lparr>jumpComboValue := min 99 (jumpComboValue racer + 1),
                  starPointValue :=
                    min (starPointValue racer + perfectJumpStarPoints gameModeTemplate
                          + min (perfectJumpMaxBonusCombo gameModeTemplate)
                                (min 99 (jumpComboValue racer + 1))
                            * perfectJumpUnitStarPoints gameModeTemplate)
                        (starPointsMax gameModeTemplate)\<rparr>))
      \<and> (hurdleClearType command = Good \<or> hurdleClearType command = DoubleJumpOrGlide \<longrightarrow>
            fst (HandleHurdleClearResult registry clientId command d) = None
          \<and> racer_in (roomUid clientContext) (characterUid clientContext)
              (snd (HandleHurdleClearResult registry clientId command d))
              = Some (racer\<lparr>jumpComboValue := 0,
                  starPointValue :=
                    min (starPointValue racer + goodJumpStarPoints gameModeTemplate)
                        (starPointsMax gameModeTemplate)\<rparr>))
      \<and> (hurdleClearType command = Collision \<longrightarrow>
            fst (HandleHurdleClearResult registry clientId command d) = None
          \<and> racer_in (roomUid clientContext) (characterUid clientContext)
              (snd (HandleHurdleClearResult registry clientId command d))
              = Some (racer\<lparr>jumpComboValue := 0\<rparr>))
      \<and> (jumpComboValue racer \<le> 99 \<longrightarrow>
            unat (min 99 (jumpComboValue racer + 1)) = min 99 (unat (jumpComboValue racer) + 1))
      \<and> (unat (starPointValue racer) + unat (perfectJumpStarPoints gameModeTemplate)
            + min (unat (perfectJumpMaxBonusCombo gameModeTemplate))
                  (unat (min 99 (jumpComboValue racer + 1)))
              * unat (perfectJumpUnitStarPoints gameModeTemplate) < 2 ^ 32 \<longrightarrow>
            unat (min (starPointValue racer + perfectJumpStarPoints gameModeTemplate
                        + min (perfectJumpMaxBonusCombo gameModeTemplate)
                              (min 99 (jumpComboValue racer + 1))
                          * perfectJumpUnitStarPoints gameModeTemplate)
                      (starPointsMax gameModeTemplate))
            = min (unat (starPointValue racer) + unat (perfectJumpStarPoints gameModeTemplate)
                    + min (unat (perfectJumpMaxBonusCombo gameModeTemplate))
                          (unat (min 99 (jumpComboValue racer + 1)))
                      * unat (perfectJumpUnitStarPoints gameModeTemplate))
                  (unat (starPointsMax gameModeTemplate)))
      \<and> (unat (starPointValue racer) + unat (goodJumpStarPoints gameModeTemplate) < 2 ^ 32 \<longrightarrow>
            unat (min (starPointValue racer + goodJumpStarPoints gameModeTemplate)
                      (starPointsMax gameModeTemplate))
            = min (unat (starPointValue racer) + unat (goodJumpStarPoints gameModeTemplate))
                  (unat (starPointsMax gameModeTemplate)))
      \<and> map_option starPointValue (racer_in 1 42
            (snd (HandleHurdleClearResult example_registry 1
                    \<lparr>hcr_characterOid = 1, hurdleClearType = Perfect\<rparr> example_director)))
          = Some 1200
      \<and> map_option starPointValue (racer_in 1 42
            (snd (HandleHurdleClearResult example_registry 1
                    \<lparr>hcr_characterOid = 1, hurdleClearType = Perfect\<rparr>
              (snd (HandleHurdleClearResult example_registry 1
                    \<lparr>hcr_characterOid = 1, hurdleClearType = Perfect\<rparr> example_director)))))
          = Some 2600
      \<and> map_option starPointValue (racer_in 1 42
            (snd (HandleHurdleClearResult example_registry 1
                    \<lparr>hcr_characterOid = 1, hurdleClearType = Perfect\<rparr>
              (snd (HandleHurdleClearResult example_registry 1
                    \<lparr>hcr_characterOid = 1, hurdleClearType = Perfect\<rparr>
                (snd (HandleHurdleClearResult example_registry 1
                    \<lparr>hcr_characterOid = 1, hurdleClearType = Perfect\<rparr> example_director)))))))
          = Some 4200"
proof -
  note general = HandleHurdleClearResult_racer [OF assms]
  have nat_combo: "jumpComboValue racer \<le> 99 \<longrightarrow>
      unat (min 99 (jumpComboValue racer + 1)) = min 99 (unat (jumpComboValue racer) + 1)"
    using combo_increment_nat by blast
  have s1: "map_option starPointValue (racer_in 1 42
            (snd (HandleHurdleClearResult example_registry 1
                    \<lparr>hcr_characterOid = 1, hurdleClearType = Perfect\<rparr> example_director)))
          = Some 1200"
    by (simp add: HandleHurdleClearResult_def example_defs handler_defs Let_def
        protocol_GameMode_Speed_def protocol_GameMode_Magic_def)
  have s2: "map_option starPointValue (racer_in 1 42
            (snd (HandleHurdleClearResult example_registry 1
                    \<lparr>hcr_characterOid = 1, hurdleClearType = Perfect\<rparr>
              (snd (HandleHurdleClearResult example_registry 1
                    \<lparr>hcr_characterOid = 1, hurdleClearType = Perfect\<rparr> example_director)))))
          = Some 2600"
    by (simp add: HandleHurdleClearResult_def example_defs handler_defs Let_def
        protocol_GameMode_Speed_def protocol_GameMode_Magic_def)
  have s3: "map_option starPointValue (racer_in 1 42
            (snd (HandleHurdleClearResult example_registry 1
                    \<lparr>hcr_characterOid = 1, hurdleClearType = Perfect\<rparr>
              (snd (HandleHurdleClearResult example_registry 1
                    \<lparr>hcr_characterOid = 1, hurdleClearType = Perfect\<rparr>
                (snd (HandleHurdleClearResult example_registry 1
                    \<lparr>hcr_characterOid = 1, hurdleClearType = Perfect\<rparr> example_director)))))))
          = Some 4200"
    by (simp add: HandleHurdleClearResult_def example_defs handler_defs Let_def
        protocol_GameMode_Speed_def protocol_GameMode_Magic_def)
  have nat_perfect:
    "unat (starPointValue racer) + unat (perfectJumpStarPoints gameModeTemplate)
            + min (unat (perfectJumpMaxBonusCombo gameModeTemplate))
                  (unat (min 99 (jumpComboValue racer + 1)))
              * unat (perfectJumpUnitStarPoints gameModeTemplate) < 2 ^ 32 \<longrightarrow>
            unat (min (starPointValue racer + perfectJumpStarPoints gameModeTemplate
                        + min (perfectJumpMaxBonusCombo gameModeTemplate)
                              (min 99 (jumpComboValue racer + 1))
                          * perfectJumpUnitStarPoints gameModeTemplate)
                      (starPointsMax gameModeTemplate))
            = min (unat (starPointValue racer) + unat (perfectJumpStarPoints gameModeTemplate)
                    + min (unat (perfectJumpMaxBonusCombo gameModeTemplate))
                          (unat (min 99 (jumpComboValue racer + 1)))
                      * unat (perfectJumpUnitStarPoints gameModeTemplate))
                  (unat (starPointsMax gameModeTemplate))"
    by (rule impI) (rule perfect_gain_nat)
  have nat_good:
    "unat (starPointValue racer) + unat (goodJumpStarPoints gameModeTemplate) < 2 ^ 32 \<longrightarrow>
            unat (min (starPointValue racer + goodJumpStarPoints gameModeTemplate)
                      (starPointsMax gameModeTemplate))
            = min (unat (starPointValue racer) + unat (goodJumpStarPoints gameModeTemplate))
                  (unat (starPointsMax gameModeTemplate))"
    by (simp add: unat_min_word unat_add_u32)
  show ?thesis
    using general nat_combo nat_perfect nat_good s1 s2 s3 by blast
qed

theorem C4_hurdle_clear_result_witness:
  "racer_in 1 42 (snd (HandleHurdleClearResult example_registry 1
       \<lparr>hcr_characterOid = 1, hurdleClearType = Perfect\<rparr> example_director))
     = Some ((example_racer 1)\<lparr>jumpComboValue := 1, starPointValue := 1200\<rparr>)
   \<and> racer_in 1 42 (snd (HandleHurdleClearResult example_registry 1
       \<lparr>hcr_characterOid = 1, hurdleClearType = Good\<rparr> example_director))
     = Some ((example_racer 1)\<lparr>jumpComboValue := 0, starPointValue := 500\<rparr>)
   \<and> racer_in 1 42 (snd (HandleHurdleClearResult example_registry 1
       \<lparr>hcr_characterOid = 1, hurdleClearType = DoubleJumpOrGlide\<rparr> example_director))
     = Some ((example_racer 1)\<lparr>jumpComboValue := 0, starPointValue := 500\<rparr>)
   \<and> racer_in 1 42 (snd (HandleHurdleClearResult example_registry 1
       \<lparr>hcr_characterOid = 1, hurdleClearType = Collision\<rparr> example_director))
     = Some ((example_racer 1)\<lparr>jumpComboValue := 0\<rparr>)"
proof -
  note h = example_director_racer_42
  have auth: "isAuthenticated \<lparr>characterUid = 42, roomUid = 1, isAuthenticated = True\<rparr>"
    by simp
  have r: "oid (example_racer 1) = 1" "starPointValue (example_racer 1) = 0"
      "jumpComboValue (example_racer 1) = 0"
    by (simp_all add: example_racer_def default_Racer_def)
  have t: "perfectJumpStarPoints example_speed_template = 1000"
      "perfectJumpUnitStarPoints example_speed_template = 200"
      "perfectJumpMaxBonusCombo example_speed_template = 5"
      "goodJumpStarPoints example_speed_template = 500"
      "starPointsMax example_speed_template = 40000"
    by (simp_all add: example_speed_template_def)
  show ?thesis
    using C4_hurdle_clear_result [OF h(1) auth, simplified, OF h(2) h(3) h(4),
        of "\<lparr>hcr_characterOid = 1, hurdleClearType = Perfect\<rparr>"]
      C4_hurdle_clear_result [OF h(1) auth, simplified, OF h(2) h(3) h(4),
        of "\<lparr>hcr_characterOid = 1, hurdleClearType = Good\<rparr>"]
      C4_hurdle_clear_result [OF h(1) auth, simplified, OF h(2) h(3) h(4),
        of "\<lparr>hcr_characterOid = 1, hurdleClearType = DoubleJumpOrGlide\<rparr>"]
      C4_hurdle_clear_result [OF h(1) auth, simplified, OF h(2) h(3) h(4),
        of "\<lparr>hcr_characterOid = 1, hurdleClearType = Collision\<rparr>"]
    by (simp add: r t)
qed

subsection \<open>Claim C8\<close>



lemma raceInstances_QueueCommand [simp]:
  "raceInstances (QueueCommand c m d) = raceInstances d"
  by (simp add: QueueCommand_def)

lemma raceInstances_broadcast [simp]:
  "raceInstances (broadcast cs m d) = raceInstances d"
  unfolding broadcast_def by (induction cs arbitrary: d) simp_all

lemma commandQueue_QueueCommand [simp]:
  "commandQueue (QueueCommand c m d) = commandQueue d @ [(c, m)]"
  by (simp add: QueueCommand_def)






section \<open>Race director: proofs about the stages\<close>


lemma stage_of_QueueCommand [simp]: "stage_of room (QueueCommand c m d) = stage_of room d"
  by (simp add: stage_of_def)

lemma stage_of_broadcast [simp]: "stage_of room (broadcast cs m d) = stage_of room d"
  by (simp add: stage_of_def)

lemma stage_of_roomSystem_update [simp]:
  "stage_of room (d\<lparr>roomSystem := rs\<rparr>) = stage_of room d"
  by (simp add: stage_of_def)

lemma stage_of_scheduled_update [simp]:
  "stage_of room (d\<lparr>scheduled := sc\<rparr>) = stage_of room d"
  by (simp add: stage_of_def)

























lemma Tick_last_world:
  "snd (Tick registry dataDirector now d) = last (tick_worlds registry dataDirector now d)"
  by (simp add: Tick_def tick_worlds_def split: prod.splits option.splits)



lemmas start_defs = HandleStartRace_def select_map_block_def PrepareItemSpawners_def
  add_racers_def AddRacer_def AddItem_def Clear_def default_RaceTracker_def
  default_RoomInstance_def example_data_def example_director_waiting_def example_room_def
  example_magic_template_def InvalidUid_def sorted_list_of_fset.rep_eq

subsection \<open>Claim C2\<close>




subsection \<open>Claim C6\<close>

text \<open>
  C6, the code at the failing input.  Room 1 is a speed room (game mode value 1) in team
  mode (team mode value 2) with the selected course 10000.  The start-race request of
  client 2, who is not the master, raises.  That of the master, client 1, succeeds: the
  race game mode is 1 and the mission id is the room's 9, but the race team mode is 1,
  the value of the room's game mode, and not the room's team mode 2.  Of the map pool
  \<open>[3, 5, 8]\<close> the maps 3 and 8 are within the master's level 5; the draws 0 and 1 pick 3
  and 8.
\<close>

theorem C6_start_race_snapshot:
  "fst (HandleStartRace example_registry example_data 0 0 2 example_director_waiting)
     = Some Not_the_master
   \<and> fst (HandleStartRace example_registry example_data 0 0 1 example_director_waiting) = None
   \<and> map_option (\<lambda>room. (GameMode_value (gameMode (details room)),
                          TeamMode_value (teamMode (details room)), missionId (details room)))
       (roomSystem example_director_waiting 1) = Some (1, 2, 9)
   \<and> map_option (\<lambda>i. (raceGameMode i, raceTeamMode i, raceMissionId i))
       (map_of (raceInstances
          (snd (HandleStartRace example_registry example_data 0 0 1 example_director_waiting))) 1)
       = Some (1, 1, 9)
   \<and> map_option raceMapBlockId
       (map_of (raceInstances
          (snd (HandleStartRace example_registry example_data 0 0 1 example_director_waiting))) 1)
       = Some 3
   \<and> map_option raceMapBlockId
       (map_of (raceInstances
          (snd (HandleStartRace example_registry example_data 1 0 1 example_director_waiting))) 1)
       = Some 8"
  by (simp add: start_defs example_defs handler_defs Let_def broadcast_def)

section \<open>Lobby: proofs\<close>







subsection \<open>Claim C5\<close>


lemmas lobby_defs = example_lobby_def example_lobby_data_def default_LobbyClientContext_def
  default_QueuedLogin_def default_UserInstance_def InvalidUid_def




subsection \<open>HandleLogin\<close>

lemma HandleLogin_invalid_login_id:
  assumes "\<not> assertions \<or> (constant0 command = 50 \<and> constant1 command = 281)"
    and "loginId command = [] \<or> authKey command = []"
  shows "HandleLogin assertions clientId command l
     = Returned (None, l\<lparr>lobbyCommandQueue := lobbyCommandQueue l
         @ [(clientId, AcCmdCLLoginCancel InvalidLoginId)]\<rparr>)"
  using assms by (auto simp: HandleLogin_def SendLoginCancel_def LobbyQueueCommand_def)

lemma HandleLogin_duplicated:
  assumes "\<not> assertions \<or> (constant0 command = 50 \<and> constant1 command = 281)"
    and "loginId command \<noteq> []" and "authKey command \<noteq> []"
    and "map_of (lobbyClients l) other = Some clientContext"
    and "client_userName clientContext = loginId command"
    and "client_isAuthenticated clientContext"
  shows "HandleLogin assertions clientId command l
     = Returned (None, l\<lparr>lobbyCommandQueue := lobbyCommandQueue l
         @ [(clientId, AcCmdCLLoginCancel Duplicated)]\<rparr>)"
proof -
  have "(other, clientContext) \<in> set (lobbyClients l)"
    using assms(4) by (rule map_of_SomeD)
  then have "list_ex (\<lambda>(c, clientContext). client_userName clientContext = loginId command
                        \<and> client_isAuthenticated clientContext) (lobbyClients l)"
    using assms(5,6) by (auto simp: list_ex_iff)
  then show ?thesis
    using assms(1-3) by (auto simp: HandleLogin_def SendLoginCancel_def LobbyQueueCommand_def)
qed

text \<open>Whatever the frame holds, the only login-cancel reasons the handler sends are
  \<open>InvalidLoginId\<close> and \<open>Duplicated\<close>.\<close>

lemma HandleLogin_cancel_reasons:
  "HandleLogin assertions clientId command l = Returned (e, l') \<Longrightarrow>
   set (lobbyCommandQueue l') \<subseteq> set (lobbyCommandQueue l)
      \<union> {(clientId, AcCmdCLLoginCancel InvalidLoginId),
          (clientId, AcCmdCLLoginCancel Duplicated)}"
  by (auto simp: HandleLogin_def SendLoginCancel_def LobbyQueueCommand_def
      split: if_splits sum.splits)

text \<open>The tasks of the scheduler neither read nor write the command queue.\<close>

lemma run_task_lobbyCommandQueue:
  "run_task (l\<lparr>lobbyCommandQueue := q\<rparr>) task = (run_task l task)\<lparr>lobbyCommandQueue := q\<rparr>"
  by (cases task)
    (simp_all add: QueueClientConnect_def QueueClientLogin_def QueueClientDisconnect_def
      QueueClientLogout_def Let_def split: option.splits)

lemma foldl_run_task_lobbyCommandQueue:
  "foldl run_task (l\<lparr>lobbyCommandQueue := q\<rparr>) tasks
     = (foldl run_task l tasks)\<lparr>lobbyCommandQueue := q\<rparr>"
  by (induction tasks arbitrary: l) (simp_all add: run_task_lobbyCommandQueue)

lemma Scheduler_Tick_lobbyCommandQueue:
  "Scheduler_Tick (l\<lparr>lobbyCommandQueue := q\<rparr>) = (Scheduler_Tick l)\<lparr>lobbyCommandQueue := q\<rparr>"
proof -
  have order: "l\<lparr>lobbyCommandQueue := q, lobbyScheduler := []\<rparr>
      = l\<lparr>lobbyScheduler := [], lobbyCommandQueue := q\<rparr>"
    by simp
  have same: "lobbyScheduler (l\<lparr>lobbyCommandQueue := q\<rparr>) = lobbyScheduler l"
    by simp
  show ?thesis
    unfolding Scheduler_Tick_def same order by (rule foldl_run_task_lobbyCommandQueue)
qed

text \<open>
  Claim C10.  Where the version assertion does not stop the process (assertions are not
  compiled in, or the frame carries the constants 50 and 281), \<^verbatim>\<open>HandleLogin\<close> settles
  two kinds of frame at once.  A frame whose \<open>loginId\<close> or \<open>authKey\<close> is empty is answered
  with login-cancel(InvalidLoginId).  A frame with both fields filled whose \<open>loginId\<close> is
  the user name of an authenticated connected client is answered with
  login-cancel(Duplicated).  In both cases the cancel is the only change of the lobby: no
  task is handed to the scheduler and the login request queue is as it was, also after
  the scheduler has run its tasks on the next tick.
\<close>

theorem C10_handle_login_early_rejections:
  assumes "\<not> assertions \<or> (constant0 command = 50 \<and> constant1 command = 281)"
  shows "(loginId command = [] \<or> authKey command = [] \<longrightarrow>
            HandleLogin assertions clientId command l
              = Returned (None, l\<lparr>lobbyCommandQueue := lobbyCommandQueue l
                  @ [(clientId, AcCmdCLLoginCancel InvalidLoginId)]\<rparr>))
      \<and> (loginId command \<noteq> [] \<and> authKey command \<noteq> []
           \<and> map_of (lobbyClients l) other = Some clientContext
           \<and> client_userName clientContext = loginId command
           \<and> client_isAuthenticated clientContext \<longrightarrow>
            HandleLogin assertions clientId command l
              = Returned (None, l\<lparr>lobbyCommandQueue := lobbyCommandQueue l
                  @ [(clientId, AcCmdCLLoginCancel Duplicated)]\<rparr>))
      \<and> (let rejected = l\<lparr>lobbyCommandQueue := lobbyCommandQueue l
                  @ [(clientId, AcCmdCLLoginCancel reason)]\<rparr>
         in lobbyScheduler rejected = lobbyScheduler l
          \<and> loginRequestQueue rejected = loginRequestQueue l
          \<and> clientLogins rejected = clientLogins l
          \<and> loginRequestQueue (Scheduler_Tick rejected) = loginRequestQueue (Scheduler_Tick l))"
proof -
  have "loginId command = [] \<or> authKey command = [] \<Longrightarrow>
        HandleLogin assertions clientId command l
          = Returned (None, l\<lparr>lobbyCommandQueue := lobbyCommandQueue l
              @ [(clientId, AcCmdCLLoginCancel InvalidLoginId)]\<rparr>)"
    using assms by (rule HandleLogin_invalid_login_id)
  moreover have "loginId command \<noteq> [] \<Longrightarrow> authKey command \<noteq> [] \<Longrightarrow>
        map_of (lobbyClients l) other = Some clientContext \<Longrightarrow>
        client_userName clientContext = loginId command \<Longrightarrow>
        client_isAuthenticated clientContext \<Longrightarrow>
        HandleLogin assertions clientId command l
          = Returned (None, l\<lparr>lobbyCommandQueue := lobbyCommandQueue l
              @ [(clientId, AcCmdCLLoginCancel Duplicated)]\<rparr>)"
    using assms by (rule HandleLogin_duplicated)
  ultimately show ?thesis
    by (simp add: Let_def Scheduler_Tick_lobbyCommandQueue)
qed

theorem C10_handle_login_early_rejections_witness:
  "HandleLogin False 4 \<lparr>constant0 = 50, constant1 = 281, loginId = [], memberNo = 0,
       authKey = ''K'', val0 = 0\<rparr> example_lobby
     = Returned (None, example_lobby\<lparr>lobbyCommandQueue :=
         [(4, AcCmdCLLoginCancel InvalidLoginId)]\<rparr>)
   \<and> HandleLogin True 4 \<lparr>constant0 = 50, constant1 = 281, loginId = ''alice'', memberNo = 0,
       authKey = ''K'', val0 = 0\<rparr> example_lobby
     = Returned (None, example_lobby\<lparr>lobbyCommandQueue :=
         [(4, AcCmdCLLoginCancel Duplicated)]\<rparr>)
   \<and> loginRequestQueue (Scheduler_Tick (example_lobby\<lparr>lobbyCommandQueue :=
         [(4, AcCmdCLLoginCancel Duplicated)]\<rparr>)) = [2]"
proof -
  have clients: "map_of (lobbyClients example_lobby) (Suc 0)
      = Some (default_LobbyClientContext\<lparr>client_isAuthenticated := True,
          client_userName := ''alice'', client_characterUid := 42\<rparr>)"
    by (simp add: example_lobby_def)
  have empty: "lobbyCommandQueue example_lobby = []"
    by (simp add: example_lobby_def)
  have tick: "loginRequestQueue (Scheduler_Tick example_lobby) = [2]"
    by (simp add: example_lobby_def Scheduler_Tick_def)
  show ?thesis
    using C10_handle_login_early_rejections [where assertions = False and clientId = 4
        and l = example_lobby and reason = Duplicated
        and command = "\<lparr>constant0 = 50, constant1 = 281, loginId = [], memberNo = 0,
              authKey = ''K'', val0 = 0\<rparr>"]
      C10_handle_login_early_rejections [where assertions = True and clientId = 4
        and l = example_lobby and reason = Duplicated and other = "Suc 0"
        and clientContext = "default_LobbyClientContext\<lparr>client_isAuthenticated := True,
          client_userName := ''alice'', client_characterUid := 42\<rparr>"
        and command = "\<lparr>constant0 = 50, constant1 = 281, loginId = ''alice'', memberNo = 0,
              authKey = ''K'', val0 = 0\<rparr>"]
    by (simp add: clients empty tick Let_def)
qed

text \<open>
  Claim C9.  Client 4 of the example lobby sends a login frame with the version constants
  51 and 281.  Where assertions are not compiled in, the constants are not looked at: no
  login-cancel is queued, the user name is stored in the client context and the login is
  handed to the scheduler, which puts client 4 into the login request queue on the next
  tick.  Where assertions are compiled in, the process is aborted.  Neither is a
  login-cancel with reason \<open>InvalidVersion\<close>.
\<close>

theorem C9_version_constants_unchecked:
  "HandleLogin False 4 \<lparr>constant0 = 51, constant1 = 281, loginId = ''carol'', memberNo = 0,
       authKey = ''K'', val0 = 0\<rparr> example_lobby
     = Returned (None, example_lobby\<lparr>
         lobbyClients :=
           [(1, default_LobbyClientContext\<lparr>client_isAuthenticated := True,
                  client_userName := ''alice'', client_characterUid := 42\<rparr>),
            (2, default_LobbyClientContext\<lparr>client_userName := ''bob''\<rparr>),
            (3, default_LobbyClientContext\<lparr>client_userName := ''alice''\<rparr>),
            (4, default_LobbyClientContext\<lparr>client_userName := ''carol''\<rparr>)],
         lobbyScheduler := [Task_QueueClientLogin 4 ''carol'' ''K'']\<rparr>)
   \<and> lobbyCommandQueue (example_lobby\<lparr>
         lobbyClients :=
           [(1, default_LobbyClientContext\<lparr>client_isAuthenticated := True,
                  client_userName := ''alice'', client_characterUid := 42\<rparr>),
            (2, default_LobbyClientContext\<lparr>client_userName := ''bob''\<rparr>),
            (3, default_LobbyClientContext\<lparr>client_userName := ''alice''\<rparr>),
            (4, default_LobbyClientContext\<lparr>client_userName := ''carol''\<rparr>)],
         lobbyScheduler := [Task_QueueClientLogin 4 ''carol'' ''K'']\<rparr>) = []
   \<and> loginRequestQueue (Scheduler_Tick (example_lobby\<lparr>
         lobbyClients :=
           [(1, default_LobbyClientContext\<lparr>client_isAuthenticated := True,
                  client_userName := ''alice'', client_characterUid := 42\<rparr>),
            (2, default_LobbyClientContext\<lparr>client_userName := ''bob''\<rparr>),
            (3, default_LobbyClientContext\<lparr>client_userName := ''alice''\<rparr>),
            (4, default_LobbyClientContext\<lparr>client_userName := ''carol''\<rparr>)],
         lobbyScheduler := [Task_QueueClientLogin 4 ''carol'' ''K'']\<rparr>)) = [2, 4]
   \<and> HandleLogin True 4 \<lparr>constant0 = 51, constant1 = 281, loginId = ''carol'', memberNo = 0,
       authKey = ''K'', val0 = 0\<rparr> example_lobby = Process_aborted"
  by (simp add: HandleLogin_def example_lobby_def default_LobbyClientContext_def
      GetLobbyClientContext_def modify_def Scheduler_Tick_def QueueClientLogin_def Let_def)
end
